theory Spec2Isabelle
  imports Main "HOL-Library.Sublist"
begin

section \<open>Statement records (inception\_context.h)\<close>

text \<open>
  The server's \<^verbatim>\<open>enum_sql_command\<close> is declared in \<^verbatim>\<open>sql/sql_lex.h\<close>; the constructors
  below are the values the inception module tests by name, and \<open>SQLCOM_OTHER\<close> stands for
  every other value of the enumeration.
\<close>

datatype enum_sql_command =
    SQLCOM_SELECT | SQLCOM_CREATE_TABLE | SQLCOM_CREATE_INDEX | SQLCOM_ALTER_TABLE
  | SQLCOM_UPDATE | SQLCOM_UPDATE_MULTI | SQLCOM_INSERT | SQLCOM_INSERT_SELECT
  | SQLCOM_DELETE | SQLCOM_DELETE_MULTI | SQLCOM_TRUNCATE | SQLCOM_DROP_TABLE
  | SQLCOM_DROP_INDEX | SQLCOM_SET_OPTION | SQLCOM_CHANGE_DB | SQLCOM_CREATE_DB
  | SQLCOM_DROP_DB | SQLCOM_ALTER_DB | SQLCOM_REPLACE | SQLCOM_REPLACE_SELECT
  | SQLCOM_RENAME_TABLE | SQLCOM_CREATE_VIEW | SQLCOM_DROP_VIEW | SQLCOM_CREATE_TRIGGER
  | SQLCOM_DROP_TRIGGER | SQLCOM_EMPTY_QUERY | SQLCOM_END | SQLCOM_OTHER

text \<open>Error levels and stages are plain C \<^verbatim>\<open>int\<close> constants.\<close>

definition ERRLEVEL_OK :: int where "ERRLEVEL_OK = 0"
definition ERRLEVEL_WARNING :: int where "ERRLEVEL_WARNING = 1"
definition ERRLEVEL_ERROR :: int where "ERRLEVEL_ERROR = 2"

definition STAGE_NONE :: int where "STAGE_NONE = 0"
definition STAGE_CHECKED :: int where "STAGE_CHECKED = 1"
definition STAGE_EXECUTED :: int where "STAGE_EXECUTED = 2"
definition STAGE_SKIPPED :: int where "STAGE_SKIPPED = 3"

record SqlCacheNode =
  id :: int
  sql_text :: string
  db_name :: string
  table_name :: string
  stage :: int
  errlevel :: int
  errmsg :: string
  stage_status :: string
  affected_rows :: int
  sequence :: string
  backup_dbname :: string
  execute_time :: string
  sqlsha1 :: string
  sql_command :: enum_sql_command
  sub_type :: string
  ddl_algorithm :: string

text \<open>A default-constructed node, as the member initialisers give it.\<close>

definition new_node :: SqlCacheNode where
  "new_node = \<lparr> id = 0, sql_text = [], db_name = [], table_name = [], stage = STAGE_NONE,
     errlevel = ERRLEVEL_OK, errmsg = [], stage_status = [], affected_rows = 0,
     sequence = [], backup_dbname = [], execute_time = [], sqlsha1 = [],
     sql_command = SQLCOM_END, sub_type = [], ddl_algorithm = [] \<rparr>"

text \<open>
  The three reporting members format their arguments with \<^verbatim>\<open>vsnprintf\<close> into
  \<^verbatim>\<open>char buf[1024]\<close>. The model takes the text the format expands to and keeps what the
  buffer holds: at most 1023 bytes.
\<close>

definition vsnprintf_buf :: "string \<Rightarrow> string" where
  "vsnprintf_buf text = take 1023 text"

definition append_line :: "string \<Rightarrow> string \<Rightarrow> string" where
  "append_line msg buf = (if msg \<noteq> [] then msg @ [CHR 0x0A] else msg) @ buf"

definition append_error :: "string \<Rightarrow> SqlCacheNode \<Rightarrow> SqlCacheNode" where
  "append_error text node =
     (let buf = vsnprintf_buf text;
          node1 = node\<lparr>errmsg := append_line (errmsg node) buf\<rparr>
      in if errlevel node1 < ERRLEVEL_ERROR then node1\<lparr>errlevel := ERRLEVEL_ERROR\<rparr>
         else node1)"

definition append_warning :: "string \<Rightarrow> SqlCacheNode \<Rightarrow> SqlCacheNode" where
  "append_warning text node =
     (let buf = vsnprintf_buf text;
          node1 = node\<lparr>errmsg := append_line (errmsg node) buf\<rparr>
      in if errlevel node1 < ERRLEVEL_WARNING then node1\<lparr>errlevel := ERRLEVEL_WARNING\<rparr>
         else node1)"

text \<open>\<open>level\<close> is an \<^verbatim>\<open>ulong\<close> rule knob: 0 = off, 1 = warning, 2 = error.\<close>

definition report :: "nat \<Rightarrow> string \<Rightarrow> SqlCacheNode \<Rightarrow> SqlCacheNode" where
  "report level text node =
     (if level = 0 then node
      else
        let buf = vsnprintf_buf text;
            node1 = node\<lparr>errmsg := append_line (errmsg node) buf\<rparr>;
            int_level = (if level \<ge> 2 then ERRLEVEL_ERROR else ERRLEVEL_WARNING)
        in if errlevel node1 < int_level then node1\<lparr>errlevel := int_level\<rparr> else node1)"

text \<open>A sequence of rule reports against one statement, in the order they are made.\<close>

fun report_all :: "(nat \<times> string) list \<Rightarrow> SqlCacheNode \<Rightarrow> SqlCacheNode" where
  "report_all [] node = node"
| "report_all ((level, text) # rs) node = report_all rs (report level text node)"

section \<open>C strings (inception\_parse.cc, inception.cc)\<close>

text \<open>
  A \<^verbatim>\<open>const char *\<close> into the query buffer is modelled as the bytes from that position to
  the end of the buffer, and a length that goes with it as a \<open>nat\<close>. The buffer is the
  statement text; the terminating NUL is the end of the list, and statement text holds no
  NUL byte of its own.
\<close>

definition is_blank :: "char \<Rightarrow> bool" where
  "is_blank c = (c = CHR '' '' \<or> c = CHR 0x09 \<or> c = CHR 0x0D \<or> c = CHR 0x0A)"

text \<open>\<^verbatim>\<open>skip_whitespace(p, end)\<close>: the position of the first byte that is not blank.\<close>

fun skip_whitespace :: "string \<Rightarrow> string" where
  "skip_whitespace [] = []"
| "skip_whitespace (c # cs) = (if is_blank c then skip_whitespace cs else c # cs)"

text \<open>\<^verbatim>\<open>tolower\<close> in the C locale: only the bytes \<^verbatim>\<open>A\<close> to \<^verbatim>\<open>Z\<close> (65 to 90) change.\<close>

definition tolower_c :: "char \<Rightarrow> char" where
  "tolower_c c =
     (if 65 \<le> (of_char c :: nat) \<and> (of_char c :: nat) \<le> 90
      then (case map_of (zip ''ABCDEFGHIJKLMNOPQRSTUVWXYZ'' ''abcdefghijklmnopqrstuvwxyz'') c of
              Some l \<Rightarrow> l | None \<Rightarrow> c)
      else c)"

text \<open>
  \<^verbatim>\<open>strncasecmp(a, b, n) == 0\<close> and \<^verbatim>\<open>strncmp(a, b, n) == 0\<close>: the first \<open>n\<close> bytes agree
  (ignoring case for the former), where a string that ends earlier only agrees with one that
  ends at the same place.
\<close>

definition strncasecmp_eq :: "string \<Rightarrow> string \<Rightarrow> nat \<Rightarrow> bool" where
  "strncasecmp_eq a b n = (map tolower_c (take n a) = map tolower_c (take n b))"

definition strncmp_eq :: "string \<Rightarrow> string \<Rightarrow> nat \<Rightarrow> bool" where
  "strncmp_eq a b n = (take n a = take n b)"

text \<open>
  \<^verbatim>\<open>find_ci(haystack, haystack_len, needle)\<close>: the offset of the first position
  \<open>i \<le> haystack_len - needle_len\<close> where the needle matches ignoring case, or \<open>None\<close>
  for \<^verbatim>\<open>nullptr\<close>. The argument is the \<open>haystack_len\<close> bytes of the haystack.
\<close>

fun find_ci :: "string \<Rightarrow> string \<Rightarrow> nat option" where
  "find_ci [] needle = (if needle = [] then Some 0 else None)"
| "find_ci (c # cs) needle =
     (if length needle > length (c # cs) then None
      else if strncasecmp_eq (c # cs) needle (length needle) then Some 0
      else map_option Suc (find_ci cs needle))"

text \<open>\<^verbatim>\<open>std::string::find\<close> of a substring, and \<^verbatim>\<open>strstr\<close>: the same search, case-sensitive.\<close>

fun str_find :: "string \<Rightarrow> string \<Rightarrow> nat option" where
  "str_find [] needle = (if needle = [] then Some 0 else None)"
| "str_find (c # cs) needle =
     (if length needle > length (c # cs) then None
      else if strncmp_eq (c # cs) needle (length needle) then Some 0
      else map_option Suc (str_find cs needle))"

text \<open>\<^verbatim>\<open>memchr(p, ch, n)\<close> on the \<open>n\<close> bytes given, and \<^verbatim>\<open>std::string::rfind\<close> of a byte.\<close>

fun memchr :: "string \<Rightarrow> char \<Rightarrow> nat option" where
  "memchr [] ch = None"
| "memchr (c # cs) ch = (if c = ch then Some 0 else map_option Suc (memchr cs ch))"

fun rfind_char :: "string \<Rightarrow> char \<Rightarrow> nat option" where
  "rfind_char [] ch = None"
| "rfind_char (c # cs) ch =
     (case rfind_char cs ch of Some i \<Rightarrow> Some (Suc i)
      | None \<Rightarrow> if c = ch then Some 0 else None)"

definition isdigit_c :: "char \<Rightarrow> bool" where
  "isdigit_c c = (48 \<le> (of_char c :: nat) \<and> (of_char c :: nat) \<le> 57)"

definition isspace_c :: "char \<Rightarrow> bool" where
  "isspace_c c = (c = CHR '' '' \<or> (9 \<le> (of_char c :: nat) \<and> (of_char c :: nat) \<le> 13))"

definition digit_val :: "char \<Rightarrow> nat" where
  "digit_val c = (of_char c :: nat) - 48"

fun decimal_value :: "nat \<Rightarrow> string \<Rightarrow> nat" where
  "decimal_value acc [] = acc"
| "decimal_value acc (c # cs) = decimal_value (acc * 10 + digit_val c) cs"

text \<open>
  \<^verbatim>\<open>unsigned long\<close> of the build: the module is POSIX code (\<^verbatim>\<open>nanosleep\<close>,
  \<^verbatim>\<open>strncasecmp\<close>) for the LP64 platforms the server runs on, where it has 64 bits;
  \<^verbatim>\<open>uint\<close> has 32.
\<close>

definition ULONG_MAX :: nat where "ULONG_MAX = 2 ^ 64 - 1"

definition cast_uint :: "nat \<Rightarrow> nat" where
  "cast_uint v = v mod 2 ^ 32"

text \<open>
  \<^verbatim>\<open>strtoul(s, nullptr, 10)\<close> and \<^verbatim>\<open>strtoull(s, nullptr, 10)\<close>: skip white space, take an
  optional sign, read the decimal digits that follow. No digits give 0; a value beyond the
  type gives \<open>ULONG_MAX\<close>; a minus sign negates the value in the unsigned type.
\<close>

definition strtoul :: "string \<Rightarrow> nat" where
  "strtoul s =
     (let s1 = dropWhile isspace_c s;
          neg = (s1 \<noteq> [] \<and> hd s1 = CHR ''-'');
          s2 = (if s1 \<noteq> [] \<and> (hd s1 = CHR ''-'' \<or> hd s1 = CHR ''+'') then tl s1 else s1);
          ds = takeWhile isdigit_c s2;
          v = decimal_value 0 ds
      in if ds = [] then 0
         else if v > ULONG_MAX then ULONG_MAX
         else if neg then (ULONG_MAX + 1 - v) mod (ULONG_MAX + 1)
         else v)"

text \<open>
  \<^verbatim>\<open>first_comment_len(p, end)\<close>: the length of the C comment that starts at \<open>p\<close>, closing
  \<^verbatim>\<open>*/\<close> included, or 0.
\<close>

definition first_comment_len :: "string \<Rightarrow> nat" where
  "first_comment_len p =
     (if length p < 2 \<or> p ! 0 \<noteq> CHR ''/'' \<or> p ! 1 \<noteq> CHR ''*'' then 0
      else case find_ci (drop 2 p) ''*/'' of
             None \<Rightarrow> 0
           | Some close \<Rightarrow> close + 2 + 2)"

definition is_inception_start :: "string \<Rightarrow> bool" where
  "is_inception_start query =
     (if length query < 24 then False
      else let p = skip_whitespace query;
               clen = first_comment_len p
           in if clen = 0 then False
              else find_ci (take clen p) ''inception_magic_start'' \<noteq> None)"

definition is_inception_commit :: "string \<Rightarrow> bool" where
  "is_inception_commit query =
     (if length query < 24 then False
      else let p = skip_whitespace query;
               clen = first_comment_len p
           in if clen = 0 then False
              else find_ci (take clen p) ''inception_magic_commit'' \<noteq> None)"

section \<open>Session context (inception\_context.h)\<close>

datatype OpMode = CHECK | EXECUTE | SPLIT | QUERY_TREE

datatype DbType = MYSQL | TIDB

text \<open>
  The client library's connection handle, as far as the module reads it: the server's
  version string (a \<^verbatim>\<open>char *\<close> that may be null) and the connection's thread id.
\<close>

record MYSQL_handle =
  server_version :: "string option"
  thread_id :: nat

text \<open>
  \<open>SplitNode\<close> and \<open>QueryTreeNode\<close>. Their members \<^verbatim>\<open>sql_text\<close>, \<^verbatim>\<open>db_name\<close>,
  \<^verbatim>\<open>table_name\<close> and \<^verbatim>\<open>id\<close> carry a prefix here, since the statement record has members
  of the same names.
\<close>

record SplitNode =
  split_sql_text :: string
  split_db_name :: string
  split_table_name :: string
  ddlflag :: int
  is_ddl_type :: bool

record QueryTreeNode =
  tree_id :: int
  tree_sql_text :: string
  query_tree_json :: string

text \<open>
  Modelled from the spec: the declarations of the members \<^verbatim>\<open>explicit_host\<close>,
  \<^verbatim>\<open>explicit_user\<close> and \<^verbatim>\<open>explicit_port\<close> are missing from the struct in
  \<^verbatim>\<open>inception_context.h\<close>. \<^verbatim>\<open>parse_option\<close> assigns \<^verbatim>\<open>true\<close> to them and
  \<^verbatim>\<open>parse_inception_start\<close> tests \<^verbatim>\<open>explicit_port\<close>, so they are \<open>bool\<close> members;
  \<^verbatim>\<open>reset()\<close> as written does not assign them.

  \<open>remote_conn\<close> is \<open>None\<close> for the null pointer. \<open>batch_tables\<close> is the
  \<^verbatim>\<open>std::map\<close> from the key \<^verbatim>\<open>"db.table"\<close> to the table's column names.
\<close>

record InceptionContext =
  active :: bool
  host :: string
  user :: string
  password :: string
  port :: nat
  mode :: OpMode
  force :: bool
  backup :: bool
  ignore_warnings :: bool
  sleep_ms :: nat
  slave_hosts :: "(string \<times> nat) list"
  db_type :: DbType
  db_version_major :: nat
  db_version_minor :: nat
  killed :: bool
  remote_exec_thread_id :: nat
  last_threads_running :: nat
  last_repl_delay :: int
  session_start_time :: nat
  remote_conn :: "MYSQL_handle option"
  remote_conn_failed :: bool
  remote_conn_error :: string
  cache_nodes :: "SqlCacheNode list"
  next_id :: int
  split_nodes :: "SplitNode list"
  current_usedb :: string
  tree_nodes :: "QueryTreeNode list"
  altered_tables :: "string set"
  batch_tables :: "string \<rightharpoonup> string set"
  batch_databases :: "string set"
  explicit_host :: bool
  explicit_user :: bool
  explicit_port :: bool


text \<open>\<^verbatim>\<open>InceptionContext::reset\<close>; closing the remote handle leaves the null pointer.\<close>

definition reset :: "InceptionContext \<Rightarrow> InceptionContext" where
  "reset ctx =
     ctx\<lparr>active := False, host := [], user := [], password := [], port := 3306,
         mode := CHECK, force := False, backup := True, ignore_warnings := False,
         sleep_ms := 0, killed := False, remote_exec_thread_id := 0,
         last_threads_running := 0, last_repl_delay := - 1, slave_hosts := [],
         db_type := MYSQL, db_version_major := 8, db_version_minor := 0,
         cache_nodes := [], next_id := 1, split_nodes := [], tree_nodes := [],
         current_usedb := [], altered_tables := {}, batch_tables := Map.empty,
         batch_databases := {}, remote_conn_failed := False, remote_conn_error := [],
         remote_conn := None\<rparr>"

text \<open>A context as the member initialisers give it (the three flags start false).\<close>

definition new_context :: InceptionContext where
  "new_context =
     \<lparr> active = False, host = [], user = [], password = [], port = 3306, mode = CHECK,
       force = False, backup = True, ignore_warnings = False, sleep_ms = 0,
       slave_hosts = [], db_type = MYSQL, db_version_major = 8, db_version_minor = 0,
       killed = False, remote_exec_thread_id = 0, last_threads_running = 0,
       last_repl_delay = - 1, session_start_time = 0, remote_conn = None,
       remote_conn_failed = False, remote_conn_error = [], cache_nodes = [], next_id = 1,
       split_nodes = [], current_usedb = [], tree_nodes = [], altered_tables = {},
       batch_tables = Map.empty, batch_databases = {}, explicit_host = False,
       explicit_user = False, explicit_port = False \<rparr>"

section \<open>Marker parser (inception\_parse.cc)\<close>

text \<open>
  The global settings the parser reads (\<^verbatim>\<open>char *\<close> system variables, \<open>None\<close> for null),
  and the two library routines of the server it calls to unwrap a password:
  \<^verbatim>\<open>base64_decode\<close> and \<^verbatim>\<open>my_aes_decrypt\<close> with \<^verbatim>\<open>my_aes_128_ecb\<close>. Each gives the
  decoded bytes, or \<open>None\<close> where the routine returns a negative length.
\<close>

record parse_config =
  opt_inception_user :: "string option"
  opt_inception_password :: "string option"
  opt_inception_password_encrypt_key :: "string option"
  base64_decode :: "string \<Rightarrow> string option"
  my_aes_decrypt :: "string \<Rightarrow> string \<Rightarrow> string option"

text \<open>
  \<^verbatim>\<open>--slave-hosts\<close>: the loop over the comma-separated \<^verbatim>\<open>host:port\<close> entries, with
  the body that handles one entry; the loop's argument is the value from \<^verbatim>\<open>pos\<close> on.
\<close>

definition slave_hosts_entry :: "string \<Rightarrow> (string \<times> nat) list \<Rightarrow> (string \<times> nat) list" where
  "slave_hosts_entry entry acc =
     (case rfind_char entry (CHR '':'') of
        None \<Rightarrow> acc
      | Some colon \<Rightarrow>
          let h = take colon entry;
              p = cast_uint (strtoul (drop (colon + 1) entry))
          in if h \<noteq> [] \<and> p > 0 then acc @ [(h, p)] else acc)"

function slave_hosts_loop :: "string \<Rightarrow> (string \<times> nat) list \<Rightarrow> (string \<times> nat) list" where
  "slave_hosts_loop v acc =
     (if v = [] then acc
      else
        let comma = (case memchr v (CHR '','') of Some i \<Rightarrow> i | None \<Rightarrow> length v)
        in slave_hosts_loop (drop (comma + 1) v) (slave_hosts_entry (take comma v) acc))"
  by pat_completeness auto
termination
  by (relation "measure (\<lambda>(v, acc). length v)") simp_all

declare slave_hosts_loop.simps [simp del]

text \<open>
  \<^verbatim>\<open>parse_option(key, key_len, val, val_len, ctx)\<close>. \<open>key\<close> is the \<open>key_len\<close> bytes of
  the key; \<open>valp\<close> is the buffer from \<^verbatim>\<open>val\<close> on, which \<^verbatim>\<open>strtoul\<close> reads without a
  length.
\<close>

definition parse_option :: "string \<Rightarrow> string \<Rightarrow> nat \<Rightarrow> InceptionContext \<Rightarrow> InceptionContext" where
  "parse_option key valp val_len ctx =
     (let val = take val_len valp;
          is_one = (val_len > 0 \<and> take 1 valp = ''1'');
          match = (\<lambda>name. length key = length name \<and> strncasecmp_eq key name (length key))
      in
        if match ''host'' then ctx\<lparr>host := val, explicit_host := True\<rparr>
        else if match ''user'' then ctx\<lparr>user := val, explicit_user := True\<rparr>
        else if match ''password'' then ctx\<lparr>password := val\<rparr>
        else if match ''port'' then ctx\<lparr>port := cast_uint (strtoul valp), explicit_port := True\<rparr>
        else if match ''enable-execute'' then (if is_one then ctx\<lparr>mode := EXECUTE\<rparr> else ctx)
        else if match ''enable-check'' then (if is_one then ctx\<lparr>mode := CHECK\<rparr> else ctx)
        else if match ''enable-split'' then (if is_one then ctx\<lparr>mode := SPLIT\<rparr> else ctx)
        else if match ''enable-query-tree'' then (if is_one then ctx\<lparr>mode := QUERY_TREE\<rparr> else ctx)
        else if match ''enable-force'' then ctx\<lparr>force := is_one\<rparr>
        else if match ''enable-remote-backup'' then ctx\<lparr>backup := is_one\<rparr>
        else if match ''enable-ignore-warnings'' then ctx\<lparr>ignore_warnings := is_one\<rparr>
        else if match ''sleep'' then ctx\<lparr>sleep_ms := strtoul valp\<rparr>
        else if match ''slave-hosts'' \<or> match ''slave_hosts''
          then ctx\<lparr>slave_hosts := slave_hosts_loop val []\<rparr>
        else ctx)"

definition decrypt_password :: "parse_config \<Rightarrow> string \<Rightarrow> string" where
  "decrypt_password cfg encrypted =
     (if length encrypted \<le> 4 \<or> \<not> strncmp_eq encrypted ''AES:'' 4 then encrypted
      else
        case opt_inception_password_encrypt_key cfg of
          None \<Rightarrow> encrypted
        | Some k \<Rightarrow>
            if k = [] then encrypted
            else
              (case base64_decode cfg (drop 4 encrypted) of
                 None \<Rightarrow> encrypted
               | Some decoded \<Rightarrow>
                   if decoded = [] then encrypted
                   else
                     (case my_aes_decrypt cfg decoded k of
                        None \<Rightarrow> encrypted
                      | Some plain \<Rightarrow> if plain = [] then encrypted else plain)))"

text \<open>
  The tokenizer loop of \<^verbatim>\<open>parse_inception_start\<close>, in three parts. \<open>buf\<close> is the buffer
  from \<^verbatim>\<open>p\<close> on and \<open>n\<close> is \<^verbatim>\<open>comment_end - p\<close>.

  \<open>next_token\<close> is the head of the loop body: skip blanks, stop when the comment is used
  up, find the next \<^verbatim>\<open>;\<close>, drop a leading \<^verbatim>\<open>--\<close>. It gives the buffer and count for the
  next round (\<^verbatim>\<open>p = semi + 1\<close>) and the token as the buffer from its first byte with its
  length: \<^verbatim>\<open>strncasecmp\<close> against the 21 bytes of the sentinel and \<^verbatim>\<open>strtoul\<close> read the
  buffer itself, past the token's end.
\<close>

definition next_token :: "string \<Rightarrow> nat \<Rightarrow> (string \<times> nat \<times> string \<times> nat) option" where
  "next_token buf n =
     (if n = 0 then None
      else
        let k = length (takeWhile is_blank (take n buf))
        in if k \<ge> n then None
           else
             let p = drop k buf;
                 m = n - k;
                 semi = (case memchr (take m p) (CHR '';'') of Some i \<Rightarrow> i | None \<Rightarrow> m);
                 dashes = (semi \<ge> 2 \<and> take 2 p = ''--'')
             in Some (drop (semi + 1) p, m - (semi + 1),
                      if dashes then drop 2 p else p,
                      if dashes then semi - 2 else semi))"

text \<open>The rest of the body: pass over the sentinel, split \<^verbatim>\<open>key=value\<close>, ignore a bare flag.\<close>

definition handle_token :: "string \<Rightarrow> nat \<Rightarrow> InceptionContext \<Rightarrow> InceptionContext" where
  "handle_token token token_len ctx =
     (if token_len \<ge> 20 \<and> strncasecmp_eq token ''inception_magic_start'' 21 then ctx
      else
        case memchr (take token_len token) (CHR ''='') of
          None \<Rightarrow> ctx
        | Some key_len \<Rightarrow>
            parse_option (take key_len token) (drop (key_len + 1) token)
              (token_len - key_len - 1) ctx)"

lemma next_token_less:
  assumes "next_token buf n = Some (rest, rest_n, token, token_len)"
  shows "rest_n < n"
proof -
  define k where "k = length (takeWhile is_blank (take n buf))"
  define semi where
    "semi = (case memchr (take (n - k) (drop k buf)) (CHR '';'') of Some i \<Rightarrow> i | None \<Rightarrow> n - k)"
  from assms have "n \<noteq> 0 \<and> rest_n = n - k - (semi + 1)"
    unfolding next_token_def Let_def k_def [symmetric] semi_def [symmetric]
    by (simp only: option.inject prod.inject option.distinct split: if_splits)
      (simp_all only: simp_thms)
  then show ?thesis by arith
qed

function tokenize :: "string \<Rightarrow> nat \<Rightarrow> InceptionContext \<Rightarrow> InceptionContext" where
  "tokenize buf n ctx =
     (case next_token buf n of
        None \<Rightarrow> ctx
      | Some (rest, rest_n, token, token_len) \<Rightarrow>
          tokenize rest rest_n (handle_token token token_len ctx))"
  by pat_completeness auto
termination
  by (relation "measure (\<lambda>(buf, n, ctx). n)") (auto dest: next_token_less)

declare tokenize.simps [simp del]

text \<open>
  The block of \<^verbatim>\<open>parse_inception_start\<close> after the tokenizer: an empty user or password
  falls back to the global setting, and a password that is not empty is unwrapped.
\<close>

definition connection_defaults :: "parse_config \<Rightarrow> InceptionContext \<Rightarrow> InceptionContext" where
  "connection_defaults cfg ctx1 =
     (let ctx2 = (case opt_inception_user cfg of
                    Some u \<Rightarrow> if user ctx1 = [] \<and> u \<noteq> [] then ctx1\<lparr>user := u\<rparr> else ctx1
                  | None \<Rightarrow> ctx1);
          ctx3 = (case opt_inception_password cfg of
                    Some pw \<Rightarrow> if password ctx2 = [] \<and> pw \<noteq> [] then ctx2\<lparr>password := pw\<rparr>
                               else ctx2
                  | None \<Rightarrow> ctx2)
      in if password ctx3 \<noteq> []
         then ctx3\<lparr>password := decrypt_password cfg (password ctx3)\<rparr> else ctx3)"

text \<open>
  \<^verbatim>\<open>parse_inception_start\<close> returns \<^verbatim>\<open>true\<close> on error; the context is changed in place
  either way, so the model returns both.
\<close>

definition parse_inception_start ::
    "parse_config \<Rightarrow> string \<Rightarrow> InceptionContext \<Rightarrow> bool \<times> InceptionContext" where
  "parse_inception_start cfg query ctx0 =
     (let ctx = reset ctx0;
          p = skip_whitespace query
      in if length p \<le> 2 \<or> p ! 0 \<noteq> CHR ''/'' \<or> p ! 1 \<noteq> CHR ''*'' then (True, ctx)
         else
           let body = drop 2 p;
               comment_end = (case find_ci body ''*/'' of Some i \<Rightarrow> i | None \<Rightarrow> length body);
               ctx4 = connection_defaults cfg (tokenize body comment_end ctx)
           in if explicit_port ctx4 \<and> (port ctx4 = 0 \<or> port ctx4 > 65535) then (True, ctx4)
              else (False, ctx4\<lparr>active := True\<rparr>))"

section \<open>Stripping the marker comment (inception.cc)\<close>

text \<open>
  \<^verbatim>\<open>strip_inception_comment(query, length)\<close> of the dispatcher: the text after the leading
  C comment and the blanks that follow it; the query itself when it does not start with a
  closed comment.
\<close>

definition strip_inception_comment :: "string \<Rightarrow> string" where
  "strip_inception_comment query =
     (let p = skip_whitespace query
      in if length p > 2 \<and> p ! 0 = CHR ''/'' \<and> p ! 1 = CHR ''*''
         then (case str_find (drop 2 p) ''*/'' of
                 Some i \<Rightarrow> skip_whitespace (drop (i + 2) (drop 2 p))
               | None \<Rightarrow> query)
         else query)"

section \<open>Remote profile detection (inception.cc, inception\_audit.cc)\<close>

text \<open>
  What an attempt to open a connection to the remote target comes to: \<^verbatim>\<open>mysql_init\<close>
  gives no handle, \<^verbatim>\<open>mysql_real_connect\<close> fails with the client's error text, or the
  handle is connected.
\<close>

datatype connect_result =
    Init_failed
  | Connect_failed string
  | Connected MYSQL_handle

text \<open>
  \<^verbatim>\<open>get_remote_conn(ctx)\<close>: the handle the context holds, no retry after a failure,
  otherwise one attempt whose outcome is \<open>attempt\<close>.
\<close>

definition get_remote_conn ::
    "connect_result \<Rightarrow> InceptionContext \<Rightarrow> MYSQL_handle option \<times> InceptionContext" where
  "get_remote_conn attempt ctx =
     (case remote_conn ctx of
        Some h \<Rightarrow> (Some h, ctx)
      | None \<Rightarrow>
          if remote_conn_failed ctx then (None, ctx)
          else
            (case attempt of
               Init_failed \<Rightarrow>
                 (None, ctx\<lparr>remote_conn_failed := True,
                            remote_conn_error := ''mysql_init() failed''\<rparr>)
             | Connect_failed err \<Rightarrow>
                 (None, ctx\<lparr>remote_conn_error := err, remote_conn_failed := True\<rparr>)
             | Connected h \<Rightarrow> (Some h, ctx\<lparr>remote_conn := Some h\<rparr>)))"

lemma length_dropWhile_less: "length (dropWhile P cs) < Suc (length cs)"
  by (simp add: less_Suc_eq_le length_dropWhile_le)

text \<open>
  \<^verbatim>\<open>parse_first_version(text, &major, &minor)\<close>: the first place where digits, a dot and
  digits follow each other. The argument is the text from index \<open>i\<close> on; \<open>None\<close> is the
  result \<^verbatim>\<open>false\<close>, which leaves \<open>major\<close> and \<open>minor\<close> as they were.
\<close>

function parse_first_version :: "string \<Rightarrow> (nat \<times> nat) option" where
  "parse_first_version [] = None"
| "parse_first_version (c # cs) =
     (if \<not> isdigit_c c then parse_first_version cs
      else
        let at_j = dropWhile isdigit_c (c # cs)
        in if at_j = [] \<or> hd at_j \<noteq> CHR ''.'' then parse_first_version at_j
           else
             let after_dot = tl at_j
             in if takeWhile isdigit_c after_dot = [] then parse_first_version after_dot
                else Some (cast_uint (strtoul (c # cs)), cast_uint (strtoul after_dot)))"
  by pat_completeness auto
termination
proof (relation "measure length", goal_cases)
  case 1
  show ?case by simp
next
  case (2 c cs)
  then show ?case by simp
next
  case (3 c cs at_j)
  then show ?case by (simp add: length_dropWhile_less)
next
  case (4 c cs at_j after_dot)
  then show ?case using length_dropWhile_less [of isdigit_c cs] by simp
qed

declare parse_first_version.simps [simp del]

text \<open>
  \<^verbatim>\<open>parse_tidb_version\<close>: the markers are tried in the order of the array; the loop is over
  the markers still to try.
\<close>

fun parse_tidb_version_loop :: "string list \<Rightarrow> string \<Rightarrow> (nat \<times> nat) option" where
  "parse_tidb_version_loop [] server_info = None"
| "parse_tidb_version_loop (marker # markers) server_info =
     (case str_find server_info marker of
        None \<Rightarrow> parse_tidb_version_loop markers server_info
      | Some pos \<Rightarrow>
          (case parse_first_version (drop (pos + length marker) server_info) of
             Some v \<Rightarrow> Some v
           | None \<Rightarrow> parse_tidb_version_loop markers server_info))"

definition parse_tidb_version :: "string \<Rightarrow> (nat \<times> nat) option" where
  "parse_tidb_version server_info =
     parse_tidb_version_loop [''TiDB-v'', ''tidb-v'', ''TiDB-'', ''tidb-''] server_info"

definition maybe_detect_remote_db_profile ::
    "connect_result \<Rightarrow> InceptionContext \<Rightarrow> InceptionContext" where
  "maybe_detect_remote_db_profile attempt ctx0 =
     (case get_remote_conn attempt ctx0 of
        (None, ctx) \<Rightarrow> ctx
      | (Some remote, ctx) \<Rightarrow>
         (let server_info = (case server_version remote of Some s \<Rightarrow> s | None \<Rightarrow> []);
              is_tidb = (str_find server_info ''TiDB'' \<noteq> None
                         \<or> str_find server_info ''tidb'' \<noteq> None);
              ctx1 = ctx\<lparr>db_type := (if is_tidb then TIDB else MYSQL)\<rparr>;
              parsed =
                (if db_type ctx1 = TIDB \<or> is_tidb
                 then (case parse_tidb_version server_info of
                         Some v \<Rightarrow> Some v
                       | None \<Rightarrow> parse_first_version server_info)
                 else parse_first_version server_info)
          in case parsed of
               Some (major, minor) \<Rightarrow>
                 ctx1\<lparr>db_version_major := major, db_version_minor := minor\<rparr>
             | None \<Rightarrow> ctx1))"






section \<open>Algorithm prediction for ALTER TABLE (inception\_audit.cc)\<close>

text \<open>
  \<^verbatim>\<open>Alter_info::flags\<close> is a bit mask whose bits are declared in the server's
  \<^verbatim>\<open>sql/sql_alter.h\<close>, one bit per flag. The mask is modelled as the set of its bits:
  \<^verbatim>\<open>flags & F\<close> is \<open>F \<in> flags\<close>. The first 24 constructors are the flags the module
  names.

  Modelled from the spec: the specification rates any partition operation, and the
  header, which is not among the module's files, declares five more partition bits that
  the module never names: \<open>ALTER_PARTITION\<close> (set by \<^verbatim>\<open>PARTITION BY\<close>),
  \<open>ALTER_ADMIN_PARTITION\<close> (the partition maintenance operations), \<open>ALTER_TABLE_REORG\<close>
  (\<^verbatim>\<open>REORGANIZE PARTITION\<close> without a partition list), \<open>ALTER_REBUILD_PARTITION\<close> and
  \<open>ALTER_ALL_PARTITION\<close> (the keyword \<^verbatim>\<open>ALL\<close> in place of partition names). \<open>ALTER_OTHER_FLAG\<close> stands for the remaining bits, which neither the
  module tests nor the specification rates (foreign keys, check constraints and the like).
\<close>

datatype alter_flag =
    ALTER_ADD_COLUMN | ALTER_DROP_COLUMN | ALTER_CHANGE_COLUMN | ALTER_CHANGE_COLUMN_DEFAULT
  | ALTER_COLUMN_ORDER | ALTER_ADD_INDEX | ALTER_DROP_INDEX | ALTER_RENAME_INDEX
  | ALTER_INDEX_VISIBILITY | ALTER_RENAME | ALTER_ORDER | ALTER_OPTIONS | ALTER_KEYS_ONOFF
  | ALTER_RECREATE | ALTER_ADD_PARTITION | ALTER_DROP_PARTITION | ALTER_COALESCE_PARTITION
  | ALTER_REORGANIZE_PARTITION | ALTER_EXCHANGE_PARTITION | ALTER_TRUNCATE_PARTITION
  | ALTER_REMOVE_PARTITIONING | ALTER_DISCARD_TABLESPACE | ALTER_IMPORT_TABLESPACE
  | ALTER_COLUMN_VISIBILITY
  | ALTER_PARTITION | ALTER_ADMIN_PARTITION | ALTER_TABLE_REORG | ALTER_REBUILD_PARTITION
  | ALTER_ALL_PARTITION
  | ALTER_OTHER_FLAG

text \<open>
  \<^verbatim>\<open>HA_CREATE_INFO::used_fields\<close>, likewise a bit mask, of which the module tests
  \<^verbatim>\<open>HA_CREATE_USED_ENGINE\<close>.
\<close>

datatype create_used_flag = HA_CREATE_USED_ENGINE | HA_CREATE_USED_OTHER

record HA_CREATE_INFO =
  used_fields :: "create_used_flag set"

text \<open>The local lambda \<^verbatim>\<open>raise\<close>, with the variable \<^verbatim>\<open>worst\<close> it captures passed through.\<close>

definition raise :: "int \<Rightarrow> int \<Rightarrow> int" where
  "raise level worst = (if level > worst then level else worst)"

text \<open>
  The body of \<^verbatim>\<open>predict_alter_algorithm\<close> up to the final \<^verbatim>\<open>switch\<close>: \<open>flags\<close> is
  \<^verbatim>\<open>lex->alter_info->flags\<close>, \<open>ci\<close> is \<^verbatim>\<open>lex->create_info\<close> (\<open>None\<close> for null).
\<close>

definition predict_worst ::
    "alter_flag set \<Rightarrow> HA_CREATE_INFO option \<Rightarrow> InceptionContext \<Rightarrow> int" where
  "predict_worst flags ci ctx =
     (let is_80 = (db_version_major ctx \<ge> 8);
          w0 = 0;
          w1 = (if ALTER_ADD_COLUMN \<in> flags then raise (if is_80 then 0 else 1) w0 else w0);
          w2 = (if ALTER_DROP_COLUMN \<in> flags then raise 1 w1 else w1);
          w3 = (if ALTER_CHANGE_COLUMN \<in> flags then raise 2 w2 else w2);
          w4 = (if ALTER_CHANGE_COLUMN_DEFAULT \<in> flags then raise 0 w3 else w3);
          w5 = (if ALTER_COLUMN_ORDER \<in> flags then raise 1 w4 else w4);
          w6 = (if ALTER_ADD_INDEX \<in> flags then raise 1 w5 else w5);
          w7 = (if ALTER_DROP_INDEX \<in> flags then raise 1 w6 else w6);
          w8 = (if ALTER_RENAME_INDEX \<in> flags then raise 1 w7 else w7);
          w9 = (if ALTER_INDEX_VISIBILITY \<in> flags then raise 1 w8 else w8);
          w10 = (if ALTER_RENAME \<in> flags then raise 0 w9 else w9);
          w11 = (if ALTER_ORDER \<in> flags then raise 2 w10 else w10);
          w12 = (if ALTER_OPTIONS \<in> flags
                 then (if (case ci of Some c \<Rightarrow> HA_CREATE_USED_ENGINE \<in> used_fields c
                                    | None \<Rightarrow> False)
                       then raise 2 w11 else raise 0 w11)
                 else w11);
          w13 = (if ALTER_KEYS_ONOFF \<in> flags then raise 1 w12 else w12);
          w14 = (if ALTER_RECREATE \<in> flags then raise 2 w13 else w13);
          w15 = (if flags \<inter> {ALTER_ADD_PARTITION, ALTER_DROP_PARTITION,
                               ALTER_COALESCE_PARTITION, ALTER_REORGANIZE_PARTITION,
                               ALTER_EXCHANGE_PARTITION, ALTER_TRUNCATE_PARTITION,
                               ALTER_REMOVE_PARTITIONING} \<noteq> {}
                 then raise 2 w14 else w14);
          w16 = (if flags \<inter> {ALTER_DISCARD_TABLESPACE, ALTER_IMPORT_TABLESPACE} \<noteq> {}
                 then raise 1 w15 else w15);
          w17 = (if ALTER_COLUMN_VISIBILITY \<in> flags then raise 0 w16 else w16)
      in w17)"

definition predict_alter_algorithm ::
    "alter_flag set \<Rightarrow> HA_CREATE_INFO option \<Rightarrow> InceptionContext \<Rightarrow> string" where
  "predict_alter_algorithm flags ci ctx =
     (let worst = predict_worst flags ci ctx
      in if worst = 0 then ''INSTANT'' else if worst = 1 then ''INPLACE'' else ''COPY'')"



definition engine_change :: "HA_CREATE_INFO option \<Rightarrow> bool" where
  "engine_change ci = (case ci of Some c \<Rightarrow> HA_CREATE_USED_ENGINE \<in> used_fields c | None \<Rightarrow> False)"


text \<open>The partition bits that \<^verbatim>\<open>predict_alter_algorithm\<close> does not test.\<close>

definition untested_partition_flags :: "alter_flag set" where
  "untested_partition_flags =
     {ALTER_PARTITION, ALTER_ADMIN_PARTITION, ALTER_TABLE_REORG, ALTER_REBUILD_PARTITION,
      ALTER_ALL_PARTITION}"

text \<open>
  For the proofs: one conditional \<^verbatim>\<open>raise\<close>, and the tests and levels of the body of
  \<open>predict_worst\<close> in the order it makes them.
\<close>

definition raise_step :: "int \<Rightarrow> bool \<times> int \<Rightarrow> int" where
  "raise_step w cl = (if fst cl then raise (snd cl) w else w)"

definition alter_steps ::
    "alter_flag set \<Rightarrow> HA_CREATE_INFO option \<Rightarrow> InceptionContext \<Rightarrow> (bool \<times> int) list" where
  "alter_steps flags ci ctx =
     [(ALTER_ADD_COLUMN \<in> flags, if db_version_major ctx \<ge> 8 then 0 else 1),
      (ALTER_DROP_COLUMN \<in> flags, 1),
      (ALTER_CHANGE_COLUMN \<in> flags, 2),
      (ALTER_CHANGE_COLUMN_DEFAULT \<in> flags, 0),
      (ALTER_COLUMN_ORDER \<in> flags, 1),
      (ALTER_ADD_INDEX \<in> flags, 1),
      (ALTER_DROP_INDEX \<in> flags, 1),
      (ALTER_RENAME_INDEX \<in> flags, 1),
      (ALTER_INDEX_VISIBILITY \<in> flags, 1),
      (ALTER_RENAME \<in> flags, 0),
      (ALTER_ORDER \<in> flags, 2),
      (ALTER_OPTIONS \<in> flags, if engine_change ci then 2 else 0),
      (ALTER_KEYS_ONOFF \<in> flags, 1),
      (ALTER_RECREATE \<in> flags, 2),
      (flags \<inter> {ALTER_ADD_PARTITION, ALTER_DROP_PARTITION, ALTER_COALESCE_PARTITION,
                  ALTER_REORGANIZE_PARTITION, ALTER_EXCHANGE_PARTITION,
                  ALTER_TRUNCATE_PARTITION, ALTER_REMOVE_PARTITIONING} \<noteq> {}, 2),
      (flags \<inter> {ALTER_DISCARD_TABLESPACE, ALTER_IMPORT_TABLESPACE} \<noteq> {}, 1),
      (ALTER_COLUMN_VISIBILITY \<in> flags, 0)]"

section \<open>Statement interception and the split grouper (inception.cc)\<close>

text \<open>
  What the module reads of the parser's output and of the connection. \<open>TABLE_LIST\<close> is
  the first element of \<^verbatim>\<open>lex->query_tables\<close>; \<open>query_block_db\<close> is
  \<^verbatim>\<open>lex->query_block->db\<close> and \<open>lex_name\<close> is \<^verbatim>\<open>lex->name.str\<close>. A \<^verbatim>\<open>char *\<close> that may
  be null is an option. \<open>create_list\<close> holds the \<^verbatim>\<open>field_name\<close> of each
  \<^verbatim>\<open>Create_field\<close>, \<open>drop_list\<close> the \<^verbatim>\<open>Alter_drop\<close> entries as their type and name.
  The members \<^verbatim>\<open>sql_command\<close>, \<^verbatim>\<open>db\<close>, \<^verbatim>\<open>table_name\<close> and \<^verbatim>\<open>name\<close> carry a prefix.
\<close>

record TABLE_LIST =
  tl_table_name :: "string option"
  tl_db :: "string option"

datatype drop_type = DROP_COLUMN | DROP_KEY

record LEX =
  lex_sql_command :: enum_sql_command
  query_block_db :: "string option"
  query_tables :: "TABLE_LIST option"
  lex_name :: "string option"
  alter_flags :: "alter_flag set"
  create_info :: "HA_CREATE_INFO option"
  create_list :: "string option list"
  drop_list :: "(drop_type \<times> string) list"

record THD =
  query :: string
  thd_db :: "string option"
  lex :: LEX











section \<open>Batch schema tracking (inception\_audit.cc)\<close>

text \<open>
  The audit engine writes \<^verbatim>\<open>ctx->batch_tables\<close> in three places: at the end of
  \<^verbatim>\<open>audit_create_table\<close> and in the ADD COLUMN and DROP COLUMN loops of
  \<^verbatim>\<open>audit_alter_table\<close>. This section models these writes with the tests that guard
  them, the existence check that opens \<^verbatim>\<open>audit_create_table\<close>, and
  \<^verbatim>\<open>audit_drop_table\<close>. The rule checks in between report against the statement's node
  and do not write the batch schema.
\<close>

definition batch_table_key :: "string \<Rightarrow> string \<Rightarrow> string" where
  "batch_table_key db t = db @ [CHR ''.''] @ t"

definition str_tolower :: "string \<Rightarrow> string" where
  "str_tolower s = map tolower_c s"

definition batch_column_exists ::
    "(string \<rightharpoonup> string set) \<Rightarrow> string \<Rightarrow> string \<Rightarrow> string \<Rightarrow> bool" where
  "batch_column_exists bt db t col =
     (case bt (batch_table_key db t) of
        None \<Rightarrow> False
      | Some cols \<Rightarrow> str_tolower col \<in> cols)"

text \<open>\<^verbatim>\<open>tbl->db ? tbl->db : thd->db().str\<close>\<close>

definition stmt_db :: "THD \<Rightarrow> TABLE_LIST \<Rightarrow> string option" where
  "stmt_db thd tbl = (case tl_db tbl of Some d \<Rightarrow> Some d | None \<Rightarrow> thd_db thd)"

text \<open>
  The key under which a CREATE TABLE statement is looked up and tracked: there is one when
  the statement has a table with a name and a database can be resolved.
\<close>

definition create_table_key :: "THD \<Rightarrow> string option" where
  "create_table_key thd =
     (case query_tables (lex thd) of
        None \<Rightarrow> None
      | Some tbl \<Rightarrow>
          (case tl_table_name tbl of
             None \<Rightarrow> None
           | Some t \<Rightarrow>
               (case stmt_db thd tbl of
                  None \<Rightarrow> None
                | Some db \<Rightarrow> Some (batch_table_key db t))))"

text \<open>
  The existence check that opens \<^verbatim>\<open>audit_create_table\<close>. \<open>remote\<close> is what
  \<^verbatim>\<open>get_remote_conn\<close> gives in the \<^verbatim>\<open>else\<close> branch: \<open>None\<close> for no connection,
  otherwise the answer of \<^verbatim>\<open>remote_table_exists\<close> on that connection.
\<close>

definition audit_create_table_exists ::
    "(string \<Rightarrow> string \<Rightarrow> bool) option \<Rightarrow> THD \<Rightarrow> (string \<rightharpoonup> string set)
       \<Rightarrow> SqlCacheNode \<Rightarrow> SqlCacheNode" where
  "audit_create_table_exists remote thd bt node =
     (case query_tables (lex thd) of
        None \<Rightarrow> node
      | Some tbl \<Rightarrow>
          (case tl_table_name tbl of
             None \<Rightarrow> node
           | Some t \<Rightarrow>
               (case stmt_db thd tbl of
                  None \<Rightarrow> node
                | Some db \<Rightarrow>
                    if bt (batch_table_key db t) \<noteq> None
                    then append_error (''Table '' @ [CHR 0x27] @ db @ ''.'' @ t @ [CHR 0x27]
                           @ '' already exists (created earlier in this batch).'') node
                    else
                      (case remote of
                         None \<Rightarrow> node
                       | Some remote_table_exists \<Rightarrow>
                           if remote_table_exists db t
                           then append_error (''Table '' @ [CHR 0x27] @ db @ ''.'' @ t
                                  @ [CHR 0x27] @ '' already exists on remote server.'') node
                           else node))))"

text \<open>The block that ends \<^verbatim>\<open>audit_create_table\<close>: the table's entry is written.\<close>

definition track_create_table :: "THD \<Rightarrow> (string \<rightharpoonup> string set) \<Rightarrow> (string \<rightharpoonup> string set)" where
  "track_create_table thd bt =
     (case create_table_key thd of
        None \<Rightarrow> bt
      | Some key \<Rightarrow>
          bt(key \<mapsto> set (map str_tolower (List.map_filter (\<lambda>f. f) (create_list (lex thd))))))"

text \<open>
  \<^verbatim>\<open>audit_alter_table\<close>: \<open>in_batch\<close> is computed once, before the loops. The ADD COLUMN
  loop inserts each new column into a tracked table's set, the DROP COLUMN loop erases a
  column that the set holds.
\<close>

definition alter_target :: "THD \<Rightarrow> (string \<times> string) option" where
  "alter_target thd =
     (case query_tables (lex thd) of
        None \<Rightarrow> None
      | Some tbl \<Rightarrow>
          (case (stmt_db thd tbl, tl_table_name tbl) of
             (Some db, Some t) \<Rightarrow> Some (db, t)
           | _ \<Rightarrow> None))"

fun track_add_columns ::
    "string \<Rightarrow> string option list \<Rightarrow> (string \<rightharpoonup> string set) \<Rightarrow> (string \<rightharpoonup> string set)" where
  "track_add_columns bkey [] bt = bt"
| "track_add_columns bkey (None # flds) bt = track_add_columns bkey flds bt"
| "track_add_columns bkey (Some col # flds) bt =
     track_add_columns bkey flds
       (bt(bkey \<mapsto> insert (str_tolower col) (case bt bkey of Some cols \<Rightarrow> cols | None \<Rightarrow> {})))"

fun track_drop_columns ::
    "string \<Rightarrow> (drop_type \<times> string) list \<Rightarrow> (string \<rightharpoonup> string set) \<Rightarrow> (string \<rightharpoonup> string set)" where
  "track_drop_columns bkey [] bt = bt"
| "track_drop_columns bkey ((ty, name) # drops) bt =
     track_drop_columns bkey drops
       (if ty = DROP_COLUMN
        then (case bt bkey of
                Some cols \<Rightarrow>
                  if str_tolower name \<in> cols then bt(bkey \<mapsto> cols - {str_tolower name}) else bt
              | None \<Rightarrow> bt)
        else bt)"

definition track_alter_table :: "THD \<Rightarrow> (string \<rightharpoonup> string set) \<Rightarrow> (string \<rightharpoonup> string set)" where
  "track_alter_table thd bt =
     (case alter_target thd of
        None \<Rightarrow> bt
      | Some (db, t) \<Rightarrow>
          let bkey = batch_table_key db t;
              in_batch = (bt bkey \<noteq> None);
              bt1 = (if ALTER_ADD_COLUMN \<in> alter_flags (lex thd) \<and> in_batch
                     then track_add_columns bkey (create_list (lex thd)) bt else bt);
              bt2 = (if ALTER_DROP_COLUMN \<in> alter_flags (lex thd) \<and> in_batch
                     then track_drop_columns bkey (drop_list (lex thd)) bt1 else bt1)
          in bt2)"

text \<open>
  \<^verbatim>\<open>audit_drop_table(THD *, SqlCacheNode *node)\<close>, whole: it is not given the context.
  \<open>opt_check_drop_table\<close> is the rule's severity knob.
\<close>

definition audit_drop_table :: "nat \<Rightarrow> SqlCacheNode \<Rightarrow> SqlCacheNode" where
  "audit_drop_table opt_check_drop_table node =
     (if opt_check_drop_table > 0
      then report opt_check_drop_table ''DROP TABLE will permanently remove the table.'' node
      else node)"

text \<open>
  What \<^verbatim>\<open>audit_statement\<close> does to \<^verbatim>\<open>ctx->batch_tables\<close>: the \<^verbatim>\<open>switch\<close> on the command
  with the two handlers that write it; every other handler, \<^verbatim>\<open>audit_drop_table\<close>
  included, leaves it as it is.
\<close>

definition audit_batch_tables :: "THD \<Rightarrow> (string \<rightharpoonup> string set) \<Rightarrow> (string \<rightharpoonup> string set)" where
  "audit_batch_tables thd bt =
     (if lex_sql_command (lex thd) = SQLCOM_CREATE_TABLE then track_create_table thd bt
      else if lex_sql_command (lex thd) = SQLCOM_ALTER_TABLE then track_alter_table thd bt
      else bt)"

text \<open>The batch schema after the statements of a batch were audited in order.\<close>

fun audit_batch :: "THD list \<Rightarrow> (string \<rightharpoonup> string set) \<Rightarrow> (string \<rightharpoonup> string set)" where
  "audit_batch [] bt = bt"
| "audit_batch (thd # thds) bt = audit_batch thds (audit_batch_tables thd bt)"

section \<open>Remote execution engine (inception\_exec.cc)\<close>

text \<open>
  The engine talks to the remote target through the client library. What the remote
  answers is the engine's environment: it is given as data, one answer for each question
  the engine asks. Writing to \<^verbatim>\<open>stderr\<close> and to the audit log and sleeping change no state
  of the session and are left out.
\<close>

text \<open>Decimal output of \<^verbatim>\<open>snprintf\<close> for \<^verbatim>\<open>%u\<close>, \<^verbatim>\<open>%d\<close> and \<^verbatim>\<open>%ld\<close>.\<close>

function dec_nat :: "nat \<Rightarrow> string" where
  "dec_nat n =
     (if n < 10 then [''0123456789'' ! n]
      else dec_nat (n div 10) @ [''0123456789'' ! (n mod 10)])"
  by pat_completeness auto
termination
  by (relation "measure (\<lambda>n. n)") simp_all

declare dec_nat.simps [simp del]

definition dec_int :: "int \<Rightarrow> string" where
  "dec_int i = (if i < 0 then CHR ''-'' # dec_nat (nat (- i)) else dec_nat (nat i))"

text \<open>The casts \<^verbatim>\<open>static_cast<long>\<close> and \<^verbatim>\<open>static_cast<int64_t>\<close> of a 64-bit unsigned value.\<close>

definition to_long :: "nat \<Rightarrow> int" where
  "to_long v = (if v < 2 ^ 63 then int v else int v - 2 ^ 64)"

text \<open>
  \<^verbatim>\<open>strip_inception_comment(sql)\<close> of the execution engine: unlike the dispatcher's, it
  strips the leading comment only when the comment holds \<^verbatim>\<open>inception_magic_start\<close>
  (in this spelling).
\<close>

definition exec_strip_inception_comment :: "string \<Rightarrow> string" where
  "exec_strip_inception_comment sql =
     (let p = skip_whitespace sql
      in if length p > 1 \<and> p ! 0 = CHR ''/'' \<and> p ! 1 = CHR ''*''
         then (case str_find (drop 2 p) ''*/'' of
                 Some i \<Rightarrow>
                   if str_find (take (i + 4) p) ''inception_magic_start'' \<noteq> None
                   then skip_whitespace (drop (i + 4) p)
                   else sql
               | None \<Rightarrow> sql)
         else sql)"

text \<open>
  \<^verbatim>\<open>connect_remote(ctx, errmsg)\<close>: the handle, or the error message it builds (in a
  buffer of 512 bytes).
\<close>

definition connect_remote :: "connect_result \<Rightarrow> InceptionContext \<Rightarrow> string + MYSQL_handle" where
  "connect_remote attempt ctx =
     (case attempt of
        Init_failed \<Rightarrow> Inl ''mysql_init() failed: out of memory''
      | Connect_failed err \<Rightarrow>
          Inl (take 511 (''Cannot connect to remote ''
                 @ (if host ctx = [] then ''127.0.0.1'' else host ctx)
                 @ '':'' @ dec_nat (port ctx) @ '': '' @ err))
      | Connected h \<Rightarrow> Inr h)"

text \<open>The thresholds and the switch of the pre-execute checks (system variables).\<close>

record exec_config =
  opt_exec_max_threads_running :: nat
  opt_exec_max_replication_delay :: nat
  opt_exec_check_read_only :: bool

text \<open>
  The answer to \<^verbatim>\<open>SELECT @@GLOBAL.read_only\<close>: the query or its result fails (with the
  client's error text), there is no row, or the row's first column (which may be NULL).
\<close>

datatype ro_answer = RO_failed string | RO_no_row | RO_row "string option"

text \<open>
  One round of polls in \<^verbatim>\<open>wait_for_remote_ready\<close>. \<open>threads_running_row\<close> is column 1 of
  the \<^verbatim>\<open>Threads_running\<close> row, \<open>None\<close> when the query gives no such value. For the slave
  connection at a position, \<open>slave_row\<close> is column 32 of \<^verbatim>\<open>SHOW SLAVE STATUS\<close>: a value,
  NULL, or no answer (the query fails, or there is no row with that column).
\<close>

datatype slave_row = Slave_no_answer | Slave_null | Slave_delay string

record poll =
  threads_running_row :: "string option"
  slave_row :: "nat \<Rightarrow> slave_row"

text \<open>
  The answer to \<^verbatim>\<open>SHOW WARNINGS\<close> after a statement: no rows to read (no warning was
  counted, or the query or its result fails), or the rows as (Level, Code, Message), each
  of which may be NULL.
\<close>

datatype warn_answer =
    No_warning_rows
  | Warning_rows "(string option \<times> string option \<times> string option) list"

text \<open>
  The answer to a statement: \<^verbatim>\<open>mysql_real_query\<close> fails with the client's error text, or
  succeeds with the connection's \<^verbatim>\<open>affected_rows\<close> (64 bits, unsigned), the elapsed
  time as \<^verbatim>\<open>%.3f\<close> prints it, and the warnings.
\<close>

datatype exec_answer =
    Exec_failed string
  | Exec_ok nat string warn_answer

text \<open>
  The environment of one statement of the batch. \<open>kill_arrives\<close> says that another
  session's \<^verbatim>\<open>inception kill\<close> sets the context's \<^verbatim>\<open>killed\<close> flag before this statement's
  check of the flag; \<open>polls\<close> gives the poll results round by round; \<open>clock\<close> is
  \<^verbatim>\<open>time(nullptr)\<close> when the sequence token is made.
\<close>

record statement_env =
  kill_arrives :: bool
  read_only_answer :: ro_answer
  polls :: "nat \<Rightarrow> poll"
  exec_answer :: exec_answer
  clock :: int

text \<open>
  The environment of one call of \<^verbatim>\<open>execute_statements\<close>: the outcome of connecting to the
  primary, whether the slave host at a position can be connected, the environment of the
  statement at a position of the batch, and the connection's own thread id.
\<close>

record exec_env =
  exec_connect :: connect_result
  slave_connects :: "nat \<Rightarrow> bool"
  stmt_env :: "nat \<Rightarrow> statement_env"
  thd_thread_id :: nat

definition parse_onoff_value :: "string option \<Rightarrow> bool" where
  "parse_onoff_value v =
     (case v of
        None \<Rightarrow> False
      | Some s \<Rightarrow> s = ''1'' \<or> str_tolower s = ''on'' \<or> str_tolower s = ''true'')"

text \<open>
  The loop over the slave connections in one round: \<open>rows\<close> are the answers in the order
  of the connections, \<open>max_delay\<close> the largest delay so far. The result is the largest
  delay and \<^verbatim>\<open>need_wait\<close>; the loop ends at the first slave that asks for waiting.
\<close>

fun slave_delay_loop :: "nat \<Rightarrow> slave_row list \<Rightarrow> int \<Rightarrow> int \<times> bool" where
  "slave_delay_loop limit [] max_delay = (max_delay, False)"
| "slave_delay_loop limit (Slave_delay s # rows) max_delay =
     (let delay = strtoul s;
          max_delay1 = (if to_long delay > max_delay then to_long delay else max_delay)
      in if delay > limit then (max_delay1, True)
         else slave_delay_loop limit rows max_delay1)"
| "slave_delay_loop limit (Slave_null # rows) max_delay = (max_delay, True)"
| "slave_delay_loop limit (Slave_no_answer # rows) max_delay =
     slave_delay_loop limit rows max_delay"

text \<open>One round of \<^verbatim>\<open>wait_for_remote_ready\<close>: \<^verbatim>\<open>need_wait\<close> and the context with its snapshot.\<close>

definition poll_round ::
    "exec_config \<Rightarrow> nat \<Rightarrow> poll \<Rightarrow> InceptionContext \<Rightarrow> bool \<times> InceptionContext" where
  "poll_round cfg n_slaves pl ctx =
     (let running = (if opt_exec_max_threads_running cfg > 0
                     then map_option strtoul (threads_running_row pl) else None);
          ctx1 = (case running of
                    Some r \<Rightarrow> ctx\<lparr>last_threads_running := r\<rparr>
                  | None \<Rightarrow> ctx);
          need_wait1 = (case running of
                          Some r \<Rightarrow> r > opt_exec_max_threads_running cfg
                        | None \<Rightarrow> False);
          slaves = (if \<not> need_wait1 \<and> opt_exec_max_replication_delay cfg > 0
                    then slave_delay_loop (opt_exec_max_replication_delay cfg)
                           (map (slave_row pl) [0..<n_slaves]) (- 1)
                    else (- 1, False));
          ctx2 = (if fst slaves \<ge> 0 then ctx1\<lparr>last_repl_delay := fst slaves\<rparr> else ctx1)
      in (need_wait1 \<or> snd slaves, ctx2))"

text \<open>
  \<^verbatim>\<open>wait_for_remote_ready\<close> loops until a round asks for no waiting; with a remote that
  never gets ready it does not return, which is the value \<open>None\<close>.
\<close>

partial_function (option) wait_for_remote_ready ::
    "exec_config \<Rightarrow> nat \<Rightarrow> (nat \<Rightarrow> poll) \<Rightarrow> nat \<Rightarrow> InceptionContext \<Rightarrow> InceptionContext option" where
  "wait_for_remote_ready cfg n_slaves pls round ctx =
     (if fst (poll_round cfg n_slaves (pls round) ctx)
      then wait_for_remote_ready cfg n_slaves pls (Suc round)
             (snd (poll_round cfg n_slaves (pls round) ctx))
      else Some (snd (poll_round cfg n_slaves (pls round) ctx)))"

text \<open>
  \<^verbatim>\<open>pre_execute_checks\<close>: \<^verbatim>\<open>true\<close> when the statement is blocked, with the node and the
  context as the checks leave them.
\<close>

definition pre_check_failed :: "string \<Rightarrow> SqlCacheNode \<Rightarrow> SqlCacheNode" where
  "pre_check_failed msg node =
     (append_error msg node)\<lparr>stage := STAGE_CHECKED, stage_status := ''Pre-check failed''\<rparr>"

definition pre_execute_checks ::
    "exec_config \<Rightarrow> nat \<Rightarrow> statement_env \<Rightarrow> InceptionContext \<Rightarrow> SqlCacheNode
       \<Rightarrow> (bool \<times> SqlCacheNode \<times> InceptionContext) option" where
  "pre_execute_checks cfg n_slaves senv ctx node =
     (let blocked =
            (if opt_exec_check_read_only cfg
             then (case read_only_answer senv of
                     RO_failed err \<Rightarrow>
                       Some (take 511 (''Failed to query remote read_only status: '' @ err))
                   | RO_no_row \<Rightarrow> None
                   | RO_row v \<Rightarrow>
                       if parse_onoff_value v
                       then Some ''Remote is read-only (read_only=ON), execution blocked by pre-check.''
                       else None)
             else None)
      in case blocked of
           Some msg \<Rightarrow> Some (True, pre_check_failed msg node, ctx)
         | None \<Rightarrow>
             if opt_exec_max_threads_running cfg > 0
                \<or> (n_slaves \<noteq> 0 \<and> opt_exec_max_replication_delay cfg > 0)
             then map_option (\<lambda>ctx1. (False, node, ctx1))
                    (wait_for_remote_ready cfg n_slaves (polls senv) 0 ctx)
             else Some (False, node, ctx))"

text \<open>\<^verbatim>\<open>collect_remote_warnings\<close>: one message line for each row.\<close>

fun collect_remote_warnings ::
    "(string option \<times> string option \<times> string option) list \<Rightarrow> SqlCacheNode \<Rightarrow> SqlCacheNode" where
  "collect_remote_warnings [] node = node"
| "collect_remote_warnings ((lv, cd, ms) # rows) node =
     (let level = (case lv of Some s \<Rightarrow> s | None \<Rightarrow> ''Warning'');
          code = (case cd of Some s \<Rightarrow> s | None \<Rightarrow> ''0'');
          msg = (case ms of Some s \<Rightarrow> s | None \<Rightarrow> []);
          line = ''Remote '' @ level @ '' (code '' @ code @ ''): '' @ msg
      in collect_remote_warnings rows
           (if str_tolower level = ''error'' then append_error line node
            else append_warning line node))"

text \<open>
  \<^verbatim>\<open>execute_one\<close>: \<^verbatim>\<open>true\<close> on error, the node, and the text sent to the remote with
  \<^verbatim>\<open>mysql_real_query\<close>, if any was sent.
\<close>

definition execute_one :: "exec_answer \<Rightarrow> SqlCacheNode \<Rightarrow> bool \<times> SqlCacheNode \<times> string option" where
  "execute_one answer node =
     (let exec_sql = exec_strip_inception_comment (sql_text node)
      in if exec_sql = []
         then (False, node\<lparr>stage := STAGE_EXECUTED, stage_status := ''Execute completed''\<rparr>, None)
         else
           (case answer of
              Exec_failed err \<Rightarrow>
                (True,
                 (append_error (''Execute failed: '' @ err) node)
                   \<lparr>stage := STAGE_EXECUTED, stage_status := ''Execute failed''\<rparr>,
                 Some exec_sql)
            | Exec_ok raw_rows time_text warns \<Rightarrow>
                let node1 = node\<lparr>affected_rows :=
                                    (if raw_rows = 2 ^ 64 - 1 then 0 else to_long raw_rows),
                                  execute_time := take 63 time_text,
                                  stage := STAGE_EXECUTED,
                                  stage_status := ''Execute completed''\<rparr>
                in (False,
                    (case warns of
                       No_warning_rows \<Rightarrow> node1
                     | Warning_rows rows \<Rightarrow> collect_remote_warnings rows node1),
                    Some exec_sql)))"

text \<open>
  The state of the statement loop: the context (whose \<^verbatim>\<open>killed\<close> flag and load snapshot
  change while the loop runs), the two flags, and the statements sent to the remote so
  far, each with its position in the batch.
\<close>

record loop_state =
  ls_ctx :: InceptionContext
  ls_has_error :: bool
  ls_stop_exec :: bool
  ls_sent :: "(nat \<times> string) list"

definition mark_killed :: "SqlCacheNode \<Rightarrow> SqlCacheNode" where
  "mark_killed node = node\<lparr>stage := STAGE_EXECUTED, stage_status := ''Killed by user''\<rparr>"

definition mark_skipped :: "SqlCacheNode \<Rightarrow> SqlCacheNode" where
  "mark_skipped node =
     append_error ''Skipped: previous statement had errors.''
       (node\<lparr>stage := STAGE_SKIPPED, stage_status := ''Skipped due to prior error''\<rparr>)"

definition make_sequence :: "int \<Rightarrow> nat \<Rightarrow> SqlCacheNode \<Rightarrow> SqlCacheNode" where
  "make_sequence now tid node =
     (if stage node = STAGE_EXECUTED
      then node\<lparr>sequence := take 127 ([CHR 0x27] @ dec_int now @ ''_'' @ dec_nat tid @ ''_''
                                      @ dec_int (id node) @ [CHR 0x27])\<rparr>
      else node)"

text \<open>
  The body of the statement loop for the node at position \<open>idx\<close>: the node and the loop
  state after it, or \<open>None\<close> when the wait for the remote does not end.
\<close>

definition exec_step ::
    "exec_config \<Rightarrow> exec_env \<Rightarrow> nat \<Rightarrow> nat \<Rightarrow> SqlCacheNode \<Rightarrow> loop_state
       \<Rightarrow> (SqlCacheNode \<times> loop_state) option" where
  "exec_step cfg env n_slaves idx node st0 =
     (let senv = stmt_env env idx;
          st = st0\<lparr>ls_ctx := (ls_ctx st0)\<lparr>killed := killed (ls_ctx st0) \<or> kill_arrives senv\<rparr>\<rparr>
      in if killed (ls_ctx st) then Some (mark_killed node, st)
         else if ls_stop_exec st then Some (mark_skipped node, st)
         else
           (case pre_execute_checks cfg n_slaves senv (ls_ctx st) node of
              None \<Rightarrow> None
            | Some (True, node1, ctx1) \<Rightarrow>
                Some (node1, st\<lparr>ls_ctx := ctx1, ls_has_error := True, ls_stop_exec := True\<rparr>)
            | Some (False, node1, ctx1) \<Rightarrow>
                (case execute_one (exec_answer senv) node1 of
                   (failed, node2, sent) \<Rightarrow>
                     Some (make_sequence (clock senv) (thd_thread_id env) node2,
                           st\<lparr>ls_ctx := ctx1,
                              ls_has_error := (ls_has_error st \<or> failed),
                              ls_stop_exec := (failed \<and> \<not> force ctx1),
                              ls_sent := ls_sent st
                                @ (case sent of Some sql \<Rightarrow> [(idx, sql)] | None \<Rightarrow> [])\<rparr>))))"

text \<open>The statement loop over the nodes from position \<open>idx\<close> on.\<close>

fun exec_loop ::
    "exec_config \<Rightarrow> exec_env \<Rightarrow> nat \<Rightarrow> nat \<Rightarrow> SqlCacheNode list \<Rightarrow> loop_state
       \<Rightarrow> (SqlCacheNode list \<times> loop_state) option" where
  "exec_loop cfg env n_slaves idx [] st = Some ([], st)"
| "exec_loop cfg env n_slaves idx (node # nodes) st =
     (case exec_step cfg env n_slaves idx node st of
        None \<Rightarrow> None
      | Some (node1, st1) \<Rightarrow>
          (case exec_loop cfg env n_slaves (Suc idx) nodes st1 of
             None \<Rightarrow> None
           | Some (nodes1, st2) \<Rightarrow> Some (node1 # nodes1, st2)))"

text \<open>The pre-scan of the audit findings, with its two \<^verbatim>\<open>break\<close>s.\<close>

fun pre_scan :: "bool \<Rightarrow> bool \<Rightarrow> SqlCacheNode list \<Rightarrow> bool" where
  "pre_scan frc ign [] = False"
| "pre_scan frc ign (node # nodes) =
     (if errlevel node \<ge> ERRLEVEL_ERROR \<and> \<not> frc then True
      else if errlevel node \<ge> ERRLEVEL_WARNING \<and> \<not> ign then True
      else pre_scan frc ign nodes)"

text \<open>
  \<^verbatim>\<open>execute_statements\<close>: the return value, the context, and the statements sent to the
  remote; \<open>None\<close> when a wait for the remote does not end.
\<close>

definition execute_statements ::
    "exec_config \<Rightarrow> exec_env \<Rightarrow> InceptionContext
       \<Rightarrow> (bool \<times> InceptionContext \<times> (nat \<times> string) list) option" where
  "execute_statements cfg env ctx =
     (if cache_nodes ctx = [] then Some (False, ctx, [])
      else if killed ctx
        then Some (True, ctx\<lparr>cache_nodes := map mark_killed (cache_nodes ctx)\<rparr>, [])
      else
        (case connect_remote (exec_connect env) ctx of
           Inl conn_err \<Rightarrow>
             Some (True,
                   ctx\<lparr>cache_nodes :=
                         map (\<lambda>node. (append_error conn_err node)
                                \<lparr>stage := STAGE_EXECUTED, stage_status := ''Execute failed''\<rparr>)
                           (cache_nodes ctx)\<rparr>,
                   [])
         | Inr mysql \<Rightarrow>
             let ctx1 = ctx\<lparr>remote_exec_thread_id := thread_id mysql\<rparr>
             in if pre_scan (force ctx1) (ignore_warnings ctx1) (cache_nodes ctx1)
                then Some (True, ctx1, [])
                else
                  let n_slaves =
                        (if opt_exec_max_replication_delay cfg > 0 \<and> slave_hosts ctx1 \<noteq> []
                         then length (filter (slave_connects env) [0..<length (slave_hosts ctx1)])
                         else 0)
                  in case exec_loop cfg env n_slaves 0 (cache_nodes ctx1)
                            \<lparr>ls_ctx = ctx1, ls_has_error = False, ls_stop_exec = False,
                              ls_sent = []\<rparr> of
                       None \<Rightarrow> None
                     | Some (nodes1, st) \<Rightarrow>
                         Some (ls_has_error st,
                               (ls_ctx st)\<lparr>cache_nodes := nodes1, remote_exec_thread_id := 0\<rparr>,
                               ls_sent st)))"

section \<open>The pre-parse hook (inception.cc)\<close>

text \<open>
  What a commit sends to the client: an error, or the result set of the session's mode,
  given here by the rows' sources.
\<close>

datatype client_reply =
    Reply_error string
  | Reply_split "SplitNode list"
  | Reply_tree "QueryTreeNode list"
  | Reply_audit "SqlCacheNode list"

text \<open>
  What the hook's callers provide: the settings, the remote seen by the execution engine,
  the outcome of the audit connection's first attempt, and the steady clock.
\<close>

record server_env =
  parse_cfg :: parse_config
  exec_cfg :: exec_config
  remote :: exec_env
  audit_connect :: connect_result
  steady_now :: nat

text \<open>\<^verbatim>\<open>setup_inception_session\<close>: \<^verbatim>\<open>true\<close> on a parse error.\<close>

definition setup_inception_session ::
    "server_env \<Rightarrow> string \<Rightarrow> InceptionContext \<Rightarrow> bool \<times> InceptionContext" where
  "setup_inception_session senv q ctx =
     (case parse_inception_start (parse_cfg senv) q ctx of
        (True, ctx1) \<Rightarrow> (True, ctx1)
      | (False, ctx1) \<Rightarrow>
          (False, (maybe_detect_remote_db_profile (audit_connect senv) ctx1)
                    \<lparr>session_start_time := steady_now senv\<rparr>))"

text \<open>
  \<^verbatim>\<open>do_inception_commit\<close>: the reply and the context; \<open>None\<close> when the execution does not
  return. \<^verbatim>\<open>generate_rollback\<close> is a no-op in the source.
\<close>

definition do_inception_commit ::
    "server_env \<Rightarrow> InceptionContext \<Rightarrow> (client_reply \<times> InceptionContext) option" where
  "do_inception_commit senv ctx =
     (if \<not> active ctx
      then Some (Reply_error ''inception_magic_commit without inception_magic_start'', ctx)
      else if mode ctx = SPLIT then Some (Reply_split (split_nodes ctx), reset ctx)
      else if mode ctx = QUERY_TREE then Some (Reply_tree (tree_nodes ctx), reset ctx)
      else if mode ctx = EXECUTE
        then (case execute_statements (exec_cfg senv) (remote senv) ctx of
                None \<Rightarrow> None
              | Some (has_error, ctx1, sent) \<Rightarrow>
                  Some (Reply_audit (cache_nodes ctx1), reset ctx1))
      else Some (Reply_audit (cache_nodes ctx), reset ctx))"

text \<open>
  \<^verbatim>\<open>handle_inception_command\<close>, as far as its return value goes: the query, without the
  blanks that lead it and the blanks and semicolons that trail it, starts one of the four
  command families. What a command then does (its reply, and the sleep or kill it sets on
  a session of the store) is not part of this model.
\<close>

definition command_text :: "string \<Rightarrow> string" where
  "command_text q = rev (dropWhile (\<lambda>c. is_blank c \<or> c = CHR '';'') (rev (skip_whitespace q)))"

definition handle_inception_command :: "string \<Rightarrow> bool" where
  "handle_inception_command q =
     (let t = command_text q
      in (length t \<ge> 15 \<and> strncasecmp_eq t ''inception show '' 15)
         \<or> (length t \<ge> 14 \<and> strncasecmp_eq t ''inception set '' 14)
         \<or> (length t \<ge> 14 \<and> strncasecmp_eq t ''inception get '' 14)
         \<or> (length t \<ge> 15 \<and> strncasecmp_eq t ''inception kill '' 15))"

text \<open>
  \<^verbatim>\<open>before_parse\<close> returns \<^verbatim>\<open>true\<close> when the query was handled, which it is in three ways,
  and \<^verbatim>\<open>false\<close> when the parser is to go on with it.
\<close>

datatype before_parse_result =
    Handled_commit client_reply
  | Handled_start_error string
  | Handled_command
  | Continue_parsing

definition before_parse ::
    "server_env \<Rightarrow> string \<Rightarrow> InceptionContext
       \<Rightarrow> (before_parse_result \<times> InceptionContext) option" where
  "before_parse senv q ctx =
     (if is_inception_commit q
      then map_option (\<lambda>(reply, ctx1). (Handled_commit reply, ctx1)) (do_inception_commit senv ctx)
      else
        let started = (if is_inception_start q then setup_inception_session senv q ctx
                       else (False, ctx))
        in if fst started
           then Some (Handled_start_error ''Failed to parse inception_magic_start comment'',
                      snd started)
           else if handle_inception_command q then Some (Handled_command, snd started)
           else Some (Continue_parsing, snd started))"

section \<open>Example settings and remotes\<close>

text \<open>
  The settings as \<^verbatim>\<open>inception_sysvars.cc\<close> initialises them: no default user, password
  or key, no throttling, the read-only check on.
\<close>

definition no_defaults :: parse_config where
  "no_defaults = \<lparr> opt_inception_user = None, opt_inception_password = None,
                   opt_inception_password_encrypt_key = None,
                   base64_decode = (\<lambda>s. None), my_aes_decrypt = (\<lambda>s k. None) \<rparr>"

definition default_exec_config :: exec_config where
  "default_exec_config = \<lparr> opt_exec_max_threads_running = 0,
                           opt_exec_max_replication_delay = 0,
                           opt_exec_check_read_only = True \<rparr>"

text \<open>
  A remote that accepts the connection, is writable, answers every statement with success
  and no warnings, and a session that nobody kills; and the same with a primary that
  refuses the connection.
\<close>

definition quiet_statement :: statement_env where
  "quiet_statement =
     \<lparr> kill_arrives = False, read_only_answer = RO_row (Some ''0''),
       polls = (\<lambda>round. \<lparr> threads_running_row = None, slave_row = (\<lambda>i. Slave_no_answer) \<rparr>),
       exec_answer = Exec_ok 0 ''0.001'' No_warning_rows, clock = 0 \<rparr>"

definition quiet_env :: exec_env where
  "quiet_env =
     \<lparr> exec_connect = Connected \<lparr> server_version = Some ''8.0.30'', thread_id = 5 \<rparr>,
       slave_connects = (\<lambda>i. True), stmt_env = (\<lambda>i. quiet_statement), thd_thread_id = 1 \<rparr>"

definition unreachable_env :: exec_env where
  "unreachable_env = quiet_env\<lparr>exec_connect := Connect_failed ''Connection refused''\<rparr>"

definition quiet_server :: server_env where
  "quiet_server =
     \<lparr> parse_cfg = no_defaults, exec_cfg = default_exec_config, remote = quiet_env,
       audit_connect = Connected \<lparr> server_version = Some ''8.0.30'', thread_id = 4 \<rparr>,
       steady_now = 0 \<rparr>"


text \<open>A cached statement as the audit leaves it: checked, with the given error level.\<close>

definition checked_node :: "int \<Rightarrow> string \<Rightarrow> int \<Rightarrow> SqlCacheNode" where
  "checked_node i sql lvl =
     new_node\<lparr>id := i, sql_text := sql, stage := STAGE_CHECKED,
              stage_status := ''Audit completed'', errlevel := lvl\<rparr>"

text \<open>
  Three batches in execute mode, and a remote where a kill arrives before the second
  statement's check of the flag. \<open>blocked_batch\<close> holds one statement that the audit
  rated an error, with \<^verbatim>\<open>force\<close> off; \<open>killed_batch\<close> was killed before its commit.
\<close>

definition blocked_batch :: InceptionContext where
  "blocked_batch =
     new_context\<lparr>active := True, host := ''h'', mode := EXECUTE,
                 cache_nodes := [checked_node 1 ''CREATE TABLE t (id INT)'' ERRLEVEL_ERROR],
                 next_id := 2\<rparr>"

definition killed_batch :: InceptionContext where
  "killed_batch =
     new_context\<lparr>active := True, host := ''h'', mode := EXECUTE, killed := True,
                 cache_nodes := [checked_node 1 ''INSERT INTO t VALUES (1)'' ERRLEVEL_OK],
                 next_id := 2\<rparr>"

definition two_inserts :: InceptionContext where
  "two_inserts =
     new_context\<lparr>active := True, host := ''h'', mode := EXECUTE,
                 cache_nodes := [checked_node 1 ''INSERT INTO t VALUES (1)'' ERRLEVEL_OK,
                                 checked_node 2 ''INSERT INTO t VALUES (2)'' ERRLEVEL_OK],
                 next_id := 3\<rparr>"

definition kill_before_second :: exec_env where
  "kill_before_second =
     quiet_env\<lparr>stmt_env := (\<lambda>i. quiet_statement\<lparr>kill_arrives := (i = 1)\<rparr>)\<rparr>"

text \<open>What a call of \<^verbatim>\<open>execute_statements\<close> leaves: the stages, the statuses, what was sent.\<close>

definition stages_after ::
    "(bool \<times> InceptionContext \<times> (nat \<times> string) list) option \<Rightarrow> int list option" where
  "stages_after res = map_option (\<lambda>(r, ctx, sent). map stage (cache_nodes ctx)) res"

definition statuses_after ::
    "(bool \<times> InceptionContext \<times> (nat \<times> string) list) option \<Rightarrow> string list option" where
  "statuses_after res = map_option (\<lambda>(r, ctx, sent). map stage_status (cache_nodes ctx)) res"

definition sent_after ::
    "(bool \<times> InceptionContext \<times> (nat \<times> string) list) option \<Rightarrow> (nat \<times> string) list option" where
  "sent_after res = map_option (\<lambda>(r, ctx, sent). sent) res"

section \<open>Audit findings block the batch\<close>

lemma pre_scan_iff:
  "pre_scan frc ign nodes \<longleftrightarrow>
     (\<exists>n \<in> set nodes. (errlevel n \<ge> ERRLEVEL_ERROR \<and> \<not> frc)
                       \<or> (errlevel n \<ge> ERRLEVEL_WARNING \<and> \<not> ign))"
  by (induction nodes) auto

text \<open>
  Claim C1, as stated: for every batch committed in execute mode with a blocking audit
  finding, every statement's stage stays checked. The batch \<open>blocked_batch\<close> has a
  statement rated error and \<^verbatim>\<open>force\<close> off, so the pre-scan would block it; when the primary
  refuses the connection, the engine never gets to the pre-scan and sets the statement's
  stage to executed (with the status \<^verbatim>\<open>Execute failed\<close>).
\<close>

theorem blocked_batch_stage_executed:
  "pre_scan (force blocked_batch) (ignore_warnings blocked_batch) (cache_nodes blocked_batch)
   \<and> map stage (cache_nodes blocked_batch) = [STAGE_CHECKED]
   \<and> stages_after (execute_statements default_exec_config unreachable_env blocked_batch)
       = Some [STAGE_EXECUTED]
   \<and> statuses_after (execute_statements default_exec_config unreachable_env blocked_batch)
       = Some [''Execute failed'']"
  by (simp add: execute_statements_def blocked_batch_def unreachable_env_def quiet_env_def
      connect_remote_def new_context_def checked_node_def new_node_def stages_after_def
      statuses_after_def append_error_def Let_def
      ERRLEVEL_OK_def ERRLEVEL_WARNING_def ERRLEVEL_ERROR_def)

text \<open>
  Claim C1, amended. For every batch committed in execute mode in which some cached
  statement has errlevel error while \<^verbatim>\<open>force\<close> is false, or errlevel at least warning while
  \<^verbatim>\<open>ignore_warnings\<close> is false (whatever \<^verbatim>\<open>force\<close> is): the engine returns and no statement
  of the batch is sent to the remote. When the session was not killed before the commit
  and the connection to the primary succeeds, the pre-scan blocks the batch, leaving every
  statement record as it was, so every stage stays checked. When the session was killed
  before the commit, every statement is instead recorded with stage executed and the
  status \<^verbatim>\<open>Killed by user\<close>; when it was not killed and the connection fails, every
  statement gets the connection error, stage executed and the status \<^verbatim>\<open>Execute failed\<close>.
\<close>

theorem pre_scan_blocks_batch:
  assumes "\<exists>n \<in> set (cache_nodes ctx).
             (errlevel n \<ge> ERRLEVEL_ERROR \<and> \<not> force ctx)
             \<or> (errlevel n \<ge> ERRLEVEL_WARNING \<and> \<not> ignore_warnings ctx)"
  shows "sent_after (execute_statements cfg env ctx) = Some []
    \<and> (\<not> killed ctx \<and> exec_connect env = Connected h \<longrightarrow>
         execute_statements cfg env ctx
           = Some (True, ctx\<lparr>remote_exec_thread_id := thread_id h\<rparr>, [])
         \<and> stages_after (execute_statements cfg env ctx) = Some (map stage (cache_nodes ctx)))
    \<and> (\<not> killed ctx \<and> exec_connect env = Connected h
        \<and> (\<forall>n \<in> set (cache_nodes ctx). stage n = STAGE_CHECKED) \<longrightarrow>
         stages_after (execute_statements cfg env ctx)
           = Some (replicate (length (cache_nodes ctx)) STAGE_CHECKED))
    \<and> (killed ctx \<longrightarrow>
         execute_statements cfg env ctx
           = Some (True, ctx\<lparr>cache_nodes := map mark_killed (cache_nodes ctx)\<rparr>, [])
         \<and> stages_after (execute_statements cfg env ctx)
           = Some (replicate (length (cache_nodes ctx)) STAGE_EXECUTED)
         \<and> statuses_after (execute_statements cfg env ctx)
           = Some (replicate (length (cache_nodes ctx)) ''Killed by user''))
    \<and> (\<not> killed ctx \<and> connect_remote (exec_connect env) ctx = Inl conn_err \<longrightarrow>
         execute_statements cfg env ctx
           = Some (True,
                   ctx\<lparr>cache_nodes :=
                         map (\<lambda>node. (append_error conn_err node)
                                \<lparr>stage := STAGE_EXECUTED, stage_status := ''Execute failed''\<rparr>)
                           (cache_nodes ctx)\<rparr>,
                   [])
         \<and> stages_after (execute_statements cfg env ctx)
           = Some (replicate (length (cache_nodes ctx)) STAGE_EXECUTED)
         \<and> statuses_after (execute_statements cfg env ctx)
           = Some (replicate (length (cache_nodes ctx)) ''Execute failed''))
    \<and> (\<not> killed ctx \<longrightarrow>
         (\<exists>h. exec_connect env = Connected h)
         \<or> (\<exists>conn_err. connect_remote (exec_connect env) ctx = Inl conn_err))"
proof -
  from assms have ne: "cache_nodes ctx \<noteq> []" by auto
  from assms have ps: "pre_scan (force ctx) (ignore_warnings ctx) (cache_nodes ctx)"
    by (simp add: pre_scan_iff)
  have sent: "sent_after (execute_statements cfg env ctx) = Some []"
  proof (cases "killed ctx")
    case True
    with ne show ?thesis by (simp add: execute_statements_def sent_after_def)
  next
    case False
    show ?thesis
    proof (cases "connect_remote (exec_connect env) ctx")
      case (Inl conn_err)
      with False ne show ?thesis by (simp add: execute_statements_def sent_after_def)
    next
      case (Inr mysql)
      with False ne ps show ?thesis by (simp add: execute_statements_def sent_after_def Let_def)
    qed
  qed
  have blocked: "execute_statements cfg env ctx
           = Some (True, ctx\<lparr>remote_exec_thread_id := thread_id h\<rparr>, [])"
    if "\<not> killed ctx" "exec_connect env = Connected h"
    using that ne ps by (simp add: execute_statements_def connect_remote_def Let_def)
  have same: "map stage (cache_nodes ctx) = replicate (length (cache_nodes ctx)) STAGE_CHECKED"
    if "\<forall>n \<in> set (cache_nodes ctx). stage n = STAGE_CHECKED"
    using that by (induction "cache_nodes ctx") (auto simp: map_replicate_const [symmetric] intro: map_idI)
  have first: "sent_after (execute_statements cfg env ctx) = Some []
    \<and> (\<not> killed ctx \<and> exec_connect env = Connected h \<longrightarrow>
         execute_statements cfg env ctx
           = Some (True, ctx\<lparr>remote_exec_thread_id := thread_id h\<rparr>, [])
         \<and> stages_after (execute_statements cfg env ctx) = Some (map stage (cache_nodes ctx)))
    \<and> (\<not> killed ctx \<and> exec_connect env = Connected h
        \<and> (\<forall>n \<in> set (cache_nodes ctx). stage n = STAGE_CHECKED) \<longrightarrow>
         stages_after (execute_statements cfg env ctx)
           = Some (replicate (length (cache_nodes ctx)) STAGE_CHECKED))"
    using sent blocked same by (auto simp: stages_after_def)
  have was_killed: "killed ctx \<longrightarrow>
         execute_statements cfg env ctx
           = Some (True, ctx\<lparr>cache_nodes := map mark_killed (cache_nodes ctx)\<rparr>, [])
         \<and> stages_after (execute_statements cfg env ctx)
           = Some (replicate (length (cache_nodes ctx)) STAGE_EXECUTED)
         \<and> statuses_after (execute_statements cfg env ctx)
           = Some (replicate (length (cache_nodes ctx)) ''Killed by user'')"
    using ne
    by (simp add: execute_statements_def stages_after_def statuses_after_def mark_killed_def
        comp_def map_replicate_const)
  have unreachable: "\<not> killed ctx \<and> connect_remote (exec_connect env) ctx = Inl conn_err \<longrightarrow>
         execute_statements cfg env ctx
           = Some (True,
                   ctx\<lparr>cache_nodes :=
                         map (\<lambda>node. (append_error conn_err node)
                                \<lparr>stage := STAGE_EXECUTED, stage_status := ''Execute failed''\<rparr>)
                           (cache_nodes ctx)\<rparr>,
                   [])
         \<and> stages_after (execute_statements cfg env ctx)
           = Some (replicate (length (cache_nodes ctx)) STAGE_EXECUTED)
         \<and> statuses_after (execute_statements cfg env ctx)
           = Some (replicate (length (cache_nodes ctx)) ''Execute failed'')"
    using ne
    by (simp add: execute_statements_def stages_after_def statuses_after_def
        comp_def map_replicate_const)
  have either: "\<not> killed ctx \<longrightarrow>
         (\<exists>h. exec_connect env = Connected h)
         \<or> (\<exists>conn_err. connect_remote (exec_connect env) ctx = Inl conn_err)"
    by (cases "exec_connect env") (simp_all add: connect_remote_def)
  from first was_killed unreachable either show ?thesis by blast
qed

theorem pre_scan_blocks_batch_witness:
  "(\<exists>n \<in> set (cache_nodes blocked_batch).
      (errlevel n \<ge> ERRLEVEL_ERROR \<and> \<not> force blocked_batch)
      \<or> (errlevel n \<ge> ERRLEVEL_WARNING \<and> \<not> ignore_warnings blocked_batch))
   \<and> \<not> killed blocked_batch
   \<and> sent_after (execute_statements default_exec_config quiet_env blocked_batch) = Some []
   \<and> stages_after (execute_statements default_exec_config quiet_env blocked_batch)
       = Some [STAGE_CHECKED]"
proof -
  have b: "\<exists>n \<in> set (cache_nodes blocked_batch).
      (errlevel n \<ge> ERRLEVEL_ERROR \<and> \<not> force blocked_batch)
      \<or> (errlevel n \<ge> ERRLEVEL_WARNING \<and> \<not> ignore_warnings blocked_batch)"
    by (simp add: blocked_batch_def new_context_def checked_node_def)
  have k: "\<not> killed blocked_batch"
    by (simp add: blocked_batch_def new_context_def)
  have c: "exec_connect quiet_env = Connected \<lparr> server_version = Some ''8.0.30'', thread_id = 5 \<rparr>"
    by (simp add: quiet_env_def)
  have s: "\<forall>n \<in> set (cache_nodes blocked_batch). stage n = STAGE_CHECKED"
    by (simp add: blocked_batch_def new_context_def checked_node_def)
  have l: "length (cache_nodes blocked_batch) = 1"
    by (simp add: blocked_batch_def)
  note inst = pre_scan_blocks_batch [OF b, where cfg = default_exec_config and env = quiet_env
      and h = "\<lparr> server_version = Some ''8.0.30'', thread_id = 5 \<rparr>"]
  from inst have sent: "sent_after (execute_statements default_exec_config quiet_env blocked_batch)
      = Some []"
    by blast
  from inst k c s
  have "stages_after (execute_statements default_exec_config quiet_env blocked_batch)
      = Some (replicate (length (cache_nodes blocked_batch)) STAGE_CHECKED)"
    by blast
  then have "stages_after (execute_statements default_exec_config quiet_env blocked_batch)
      = Some [STAGE_CHECKED]"
    by (simp only: l replicate.simps One_nat_def)
  with b k sent show ?thesis by blast
qed

section \<open>A killed session sends nothing more\<close>

lemma exec_step_killed:
  assumes "killed (ls_ctx st) \<or> kill_arrives (stmt_env env idx)"
  shows "exec_step cfg env n idx node st
           = Some (mark_killed node, st\<lparr>ls_ctx := (ls_ctx st)\<lparr>killed := True\<rparr>\<rparr>)"
  using assms by (auto simp: exec_step_def Let_def)

lemma exec_step_sent:
  assumes "exec_step cfg env n idx node st = Some (node1, st1)"
    and "(i, s) \<in> set (ls_sent st1)"
  shows "(i, s) \<in> set (ls_sent st) \<or> i = idx"
proof (cases "killed (ls_ctx st) \<or> kill_arrives (stmt_env env idx)")
  case True
  from exec_step_killed [OF True, of cfg n node] assms show ?thesis by simp
next
  case False
  with assms show ?thesis
    by (auto simp: exec_step_def Let_def split: if_splits option.splits prod.splits bool.splits)
qed

text \<open>
  What the loop sends for the nodes at the positions from \<open>idx\<close> on carries one of
  these positions.
\<close>

lemma exec_loop_sent:
  assumes "exec_loop cfg env n idx nodes st = Some (nodes1, st1)"
    and "(i, s) \<in> set (ls_sent st1)"
  shows "(i, s) \<in> set (ls_sent st) \<or> (idx \<le> i \<and> i < idx + length nodes)"
  using assms
proof (induction nodes arbitrary: idx st nodes1 st1)
  case Nil
  then show ?case by simp
next
  case (Cons node nodes)
  from Cons.prems(1) obtain node1 st2 nodes2
    where step: "exec_step cfg env n idx node st = Some (node1, st2)"
      and rest: "exec_loop cfg env n (Suc idx) nodes st2 = Some (nodes2, st1)"
    by (auto split: option.splits)
  from Cons.IH [OF rest Cons.prems(2)]
  have "(i, s) \<in> set (ls_sent st2) \<or> (Suc idx \<le> i \<and> i < Suc idx + length nodes)" .
  with exec_step_sent [OF step, of i s] show ?case by auto
qed

text \<open>The loop over two stretches of nodes is the loop over the first, then over the second.\<close>

lemma exec_loop_append:
  "exec_loop cfg env n idx (pre @ post) st
     = (case exec_loop cfg env n idx pre st of
          None \<Rightarrow> None
        | Some (pre1, st1) \<Rightarrow>
            (case exec_loop cfg env n (idx + length pre) post st1 of
               None \<Rightarrow> None
             | Some (post1, st2) \<Rightarrow> Some (pre1 @ post1, st2)))"
proof (induction pre arbitrary: idx st)
  case Nil
  show ?case by (simp split: option.split prod.split)
next
  case (Cons node pre)
  show ?case
    by (simp add: Cons.IH split: option.split prod.split)
qed

text \<open>
  With the flag set the loop returns: it marks every node as killed, sends nothing, and
  leaves the loop state as it is.
\<close>

lemma exec_loop_after_kill:
  assumes "killed (ls_ctx st)"
  shows "exec_loop cfg env n idx nodes st = Some (map mark_killed nodes, st)"
  using assms
proof (induction nodes arbitrary: idx)
  case Nil
  show ?case by simp
next
  case (Cons node nodes)
  from Cons.prems have "(ls_ctx st)\<lparr>killed := True\<rparr> = ls_ctx st" by simp
  then have same: "st\<lparr>ls_ctx := (ls_ctx st)\<lparr>killed := True\<rparr>\<rparr> = st" by simp
  have "exec_step cfg env n idx node st
          = Some (mark_killed node, st\<lparr>ls_ctx := (ls_ctx st)\<lparr>killed := True\<rparr>\<rparr>)"
    by (rule exec_step_killed) (simp add: Cons.prems)
  then have "exec_step cfg env n idx node st = Some (mark_killed node, st)"
    by (simp only: same)
  with Cons.IH [OF Cons.prems] show ?case by simp
qed

lemma exec_loop_kill_seen:
  assumes "nodes \<noteq> []"
    and "killed (ls_ctx st) \<or> kill_arrives (stmt_env env idx)"
  shows "exec_loop cfg env n idx nodes st
           = Some (map mark_killed nodes, st\<lparr>ls_ctx := (ls_ctx st)\<lparr>killed := True\<rparr>\<rparr>)"
proof -
  from assms(1) obtain node rest where nodes: "nodes = node # rest" by (cases nodes) auto
  let ?st = "st\<lparr>ls_ctx := (ls_ctx st)\<lparr>killed := True\<rparr>\<rparr>"
  have "killed (ls_ctx ?st)" by simp
  then have "exec_loop cfg env n (Suc idx) rest ?st = Some (map mark_killed rest, ?st)"
    by (rule exec_loop_after_kill)
  with exec_step_killed [OF assms(2), of cfg n node] nodes show ?thesis by simp
qed

text \<open>Without throttling no wait is entered, so the loop and the engine return.\<close>

lemma exec_step_returns:
  assumes "opt_exec_max_threads_running cfg = 0" and "opt_exec_max_replication_delay cfg = 0"
  shows "exec_step cfg env n idx node st \<noteq> None"
  using assms
  by (simp add: exec_step_def pre_execute_checks_def Let_def
      split: option.split prod.split bool.split ro_answer.split)

lemma exec_loop_returns:
  assumes "opt_exec_max_threads_running cfg = 0" and "opt_exec_max_replication_delay cfg = 0"
  shows "exec_loop cfg env n idx nodes st \<noteq> None"
proof (induction nodes arbitrary: idx st)
  case Nil
  show ?case by simp
next
  case (Cons node nodes)
  from exec_step_returns [OF assms, of env n idx node st] obtain node1 st1
    where "exec_step cfg env n idx node st = Some (node1, st1)" by auto
  moreover from Cons.IH [of "Suc idx" st1] obtain nodes1 st2
    where "exec_loop cfg env n (Suc idx) nodes st1 = Some (nodes1, st2)" by auto
  ultimately show ?case by simp
qed

lemma execute_statements_returns:
  assumes "opt_exec_max_threads_running cfg = 0" and "opt_exec_max_replication_delay cfg = 0"
  shows "execute_statements cfg env ctx \<noteq> None"
proof -
  have loop: "exec_loop cfg env n 0 (cache_nodes ctx) st \<noteq> None" for n st
    by (rule exec_loop_returns [OF assms])
  show ?thesis
  proof (cases "cache_nodes ctx = [] \<or> killed ctx")
    case True
    then show ?thesis by (auto simp: execute_statements_def)
  next
    case False
    show ?thesis
    proof (cases "connect_remote (exec_connect env) ctx")
      case (Inl conn_err)
      with False show ?thesis by (auto simp: execute_statements_def)
    next
      case (Inr mysql)
      let ?st = "\<lparr>ls_ctx = ctx\<lparr>remote_exec_thread_id := thread_id mysql\<rparr>,
                   ls_has_error = False, ls_stop_exec = False, ls_sent = []\<rparr>"
      from loop [of 0 ?st] obtain nodes1 st1
        where "exec_loop cfg env 0 0 (cache_nodes ctx) ?st = Some (nodes1, st1)"
        by (cases "exec_loop cfg env 0 0 (cache_nodes ctx) ?st") auto
      with False Inr assms(2) show ?thesis
        by (auto simp: execute_statements_def Let_def)
    qed
  qed
qed

text \<open>The first statement of \<open>two_inserts\<close> on the remote \<open>kill_before_second\<close>.\<close>

lemma first_insert_step:
  assumes "\<not> killed (ls_ctx st)" and "\<not> ls_stop_exec st"
  shows "exec_step default_exec_config kill_before_second 0 0
           (checked_node 1 ''INSERT INTO t VALUES (1)'' ERRLEVEL_OK) st
         = Some (make_sequence 0 1
                   ((checked_node 1 ''INSERT INTO t VALUES (1)'' ERRLEVEL_OK)
                      \<lparr>affected_rows := 0, execute_time := ''0.001'',
                       stage := STAGE_EXECUTED, stage_status := ''Execute completed''\<rparr>),
                 st\<lparr>ls_ctx := ls_ctx st, ls_has_error := ls_has_error st,
                    ls_stop_exec := False,
                    ls_sent := ls_sent st @ [(0, ''INSERT INTO t VALUES (1)'')]\<rparr>)"
proof -
  have strip: "exec_strip_inception_comment ''INSERT INTO t VALUES (1)''
                 = ''INSERT INTO t VALUES (1)''"
    by (simp add: exec_strip_inception_comment_def is_blank_def)
  from assms show ?thesis
    by (simp add: exec_step_def kill_before_second_def quiet_env_def quiet_statement_def
        default_exec_config_def pre_execute_checks_def parse_onoff_value_def str_tolower_def
        tolower_c_def execute_one_def strip checked_node_def to_long_def Let_def)
qed

lemma two_inserts_fields:
  "cache_nodes two_inserts
     = [checked_node 1 ''INSERT INTO t VALUES (1)'' ERRLEVEL_OK,
        checked_node 2 ''INSERT INTO t VALUES (2)'' ERRLEVEL_OK]"
  "\<not> killed two_inserts" "\<not> force two_inserts" "\<not> ignore_warnings two_inserts"
  "slave_hosts two_inserts = []"
  by (simp_all add: two_inserts_def new_context_def)

lemma two_inserts_pre_scan:
  "\<not> pre_scan False False
       [checked_node 1 ''INSERT INTO t VALUES (1)'' ERRLEVEL_OK,
        checked_node 2 ''INSERT INTO t VALUES (2)'' ERRLEVEL_OK]"
  by (simp add: checked_node_def ERRLEVEL_OK_def ERRLEVEL_WARNING_def ERRLEVEL_ERROR_def)

text \<open>
  Claim C2, as stated: a statement dispatched after the flag is seen set never has the
  stage executed. The batch \<open>killed_batch\<close> was killed before its commit: its statement is
  not sent, and its stage is set to executed. With \<open>kill_before_second\<close> the kill arrives
  between two statements: the first is sent and completes, the second is not sent and
  its stage is executed too, with the status \<^verbatim>\<open>Killed by user\<close>.
\<close>

theorem killed_statement_stage_executed:
  "killed killed_batch
   \<and> stages_after (execute_statements default_exec_config quiet_env killed_batch)
       = Some [STAGE_EXECUTED]
   \<and> sent_after (execute_statements default_exec_config quiet_env killed_batch) = Some []
   \<and> stages_after (execute_statements default_exec_config kill_before_second two_inserts)
       = Some [STAGE_EXECUTED, STAGE_EXECUTED]
   \<and> statuses_after (execute_statements default_exec_config kill_before_second two_inserts)
       = Some [''Execute completed'', ''Killed by user'']
   \<and> sent_after (execute_statements default_exec_config kill_before_second two_inserts)
       = Some [(0, ''INSERT INTO t VALUES (1)'')]"
proof -
  have a: "execute_statements default_exec_config quiet_env killed_batch
             = Some (True, killed_batch\<lparr>cache_nodes := map mark_killed (cache_nodes killed_batch)\<rparr>, [])"
    by (simp add: execute_statements_def killed_batch_def new_context_def)
  have step1: "exec_step default_exec_config kill_before_second 0 (Suc 0) node st
               = Some (mark_killed node, st\<lparr>ls_ctx := (ls_ctx st)\<lparr>killed := True\<rparr>\<rparr>)" for node st
    by (rule exec_step_killed) (simp add: kill_before_second_def quiet_env_def)
  have conn: "connect_remote (exec_connect kill_before_second) c
                = Inr \<lparr>server_version = Some ''8.0.30'', thread_id = 5\<rparr>" for c
    by (simp add: connect_remote_def kill_before_second_def quiet_env_def)
  have loop: "exec_loop default_exec_config kill_before_second 0 0
                 [checked_node 1 ''INSERT INTO t VALUES (1)'' ERRLEVEL_OK,
                  checked_node 2 ''INSERT INTO t VALUES (2)'' ERRLEVEL_OK]
                 \<lparr>ls_ctx = two_inserts\<lparr>remote_exec_thread_id := 5\<rparr>, ls_has_error = False,
                    ls_stop_exec = False, ls_sent = []\<rparr>
              = Some ([make_sequence 0 1
                         ((checked_node 1 ''INSERT INTO t VALUES (1)'' ERRLEVEL_OK)
                            \<lparr>affected_rows := 0, execute_time := ''0.001'',
                             stage := STAGE_EXECUTED, stage_status := ''Execute completed''\<rparr>),
                       mark_killed (checked_node 2 ''INSERT INTO t VALUES (2)'' ERRLEVEL_OK)],
                      \<lparr>ls_ctx = two_inserts\<lparr>remote_exec_thread_id := 5, killed := True\<rparr>,
                         ls_has_error = False, ls_stop_exec = False,
                         ls_sent = [(0, ''INSERT INTO t VALUES (1)'')]\<rparr>)"
    by (simp add: first_insert_step step1 two_inserts_fields)
  have b: "execute_statements default_exec_config kill_before_second two_inserts
             = Some (False,
                     two_inserts\<lparr>remote_exec_thread_id := 5, killed := True,
                        cache_nodes :=
                          [make_sequence 0 1
                             ((checked_node 1 ''INSERT INTO t VALUES (1)'' ERRLEVEL_OK)
                                \<lparr>affected_rows := 0, execute_time := ''0.001'',
                                 stage := STAGE_EXECUTED, stage_status := ''Execute completed''\<rparr>),
                           mark_killed (checked_node 2 ''INSERT INTO t VALUES (2)'' ERRLEVEL_OK)],
                        remote_exec_thread_id := 0\<rparr>,
                     [(0, ''INSERT INTO t VALUES (1)'')])"
    unfolding execute_statements_def
    by (simp add: conn two_inserts_fields two_inserts_pre_scan loop Let_def
        del: pre_scan.simps exec_loop.simps)
  have k: "killed killed_batch" by (simp add: killed_batch_def)
  show ?thesis
    unfolding a b
    by (simp add: k stages_after_def statuses_after_def sent_after_def mark_killed_def
        make_sequence_def killed_batch_def)
qed

text \<open>
  Claim C2, amended. Once the killed flag is seen set on a session context, no further
  statement of that context is sent to the remote, and the engine returns with each of
  these statements recorded with stage executed and the status \<^verbatim>\<open>Killed by user\<close>, all
  its other fields as they were.

  \<^item> A batch killed before its commit: the engine returns, every statement marked so,
    nothing sent.
  \<^item> The statement loop, at any position and in any loop state, when the flag is set or a
    kill arrives before the check of the flag made ahead of the statement at this
    position: the loop returns, with this statement and all later ones marked so, and
    what was sent so far unchanged.
  \<^item> The engine, when the loop over the first \<open>j\<close> statements has returned and the flag is
    seen set at statement \<open>j\<close>: the engine returns, the statements from \<open>j\<close> on are marked
    so, and every statement sent has a position before \<open>j\<close>.
  \<^item> The loop can only fail to return in a wait for the remote's load to go down: with
    the two thresholds at 0 (their defaults) the engine always returns.
\<close>

theorem killed_statements_not_sent:
  "(cache_nodes ctx \<noteq> [] \<and> killed ctx \<longrightarrow>
      execute_statements cfg env ctx
        = Some (True, ctx\<lparr>cache_nodes := map mark_killed (cache_nodes ctx)\<rparr>, []))
   \<and> (nodes \<noteq> [] \<and> (killed (ls_ctx st) \<or> kill_arrives (stmt_env env idx)) \<longrightarrow>
      exec_loop cfg env n idx nodes st
        = Some (map mark_killed nodes, st\<lparr>ls_ctx := (ls_ctx st)\<lparr>killed := True\<rparr>\<rparr>))
   \<and> (\<not> killed ctx \<and> exec_connect env = Connected h
       \<and> \<not> pre_scan (force ctx) (ignore_warnings ctx) (cache_nodes ctx)
       \<and> j < length (cache_nodes ctx)
       \<and> exec_loop cfg env
            (if opt_exec_max_replication_delay cfg > 0 \<and> slave_hosts ctx \<noteq> []
             then length (filter (slave_connects env) [0..<length (slave_hosts ctx)]) else 0)
            0 (take j (cache_nodes ctx))
            \<lparr>ls_ctx = ctx\<lparr>remote_exec_thread_id := thread_id h\<rparr>, ls_has_error = False,
              ls_stop_exec = False, ls_sent = []\<rparr>
          = Some (pre1, st1)
       \<and> (killed (ls_ctx st1) \<or> kill_arrives (stmt_env env j)) \<longrightarrow>
      execute_statements cfg env ctx
        = Some (ls_has_error st1,
                (ls_ctx st1)\<lparr>killed := True,
                              cache_nodes := pre1 @ map mark_killed (drop j (cache_nodes ctx)),
                              remote_exec_thread_id := 0\<rparr>,
                ls_sent st1)
      \<and> (\<forall>i s. (i, s) \<in> set (ls_sent st1) \<longrightarrow> i < j))
   \<and> stage (mark_killed node) = STAGE_EXECUTED
   \<and> stage_status (mark_killed node) = ''Killed by user''
   \<and> mark_killed node = node\<lparr>stage := STAGE_EXECUTED, stage_status := ''Killed by user''\<rparr>
   \<and> (opt_exec_max_threads_running cfg = 0 \<and> opt_exec_max_replication_delay cfg = 0 \<longrightarrow>
        execute_statements cfg env ctx \<noteq> None)"
proof -
  have before: "cache_nodes ctx \<noteq> [] \<and> killed ctx \<longrightarrow>
      execute_statements cfg env ctx
        = Some (True, ctx\<lparr>cache_nodes := map mark_killed (cache_nodes ctx)\<rparr>, [])"
    by (simp add: execute_statements_def)
  have inloop: "nodes \<noteq> [] \<and> (killed (ls_ctx st) \<or> kill_arrives (stmt_env env idx)) \<longrightarrow>
      exec_loop cfg env n idx nodes st
        = Some (map mark_killed nodes, st\<lparr>ls_ctx := (ls_ctx st)\<lparr>killed := True\<rparr>\<rparr>)"
    using exec_loop_kill_seen [of nodes st env idx cfg n] by blast
  let ?n = "if opt_exec_max_replication_delay cfg > 0 \<and> slave_hosts ctx \<noteq> []
            then length (filter (slave_connects env) [0..<length (slave_hosts ctx)]) else 0"
  let ?st = "\<lparr>ls_ctx = ctx\<lparr>remote_exec_thread_id := thread_id h\<rparr>, ls_has_error = False,
              ls_stop_exec = False, ls_sent = []\<rparr>"
  have engine: "execute_statements cfg env ctx
        = Some (ls_has_error st1,
                (ls_ctx st1)\<lparr>killed := True,
                              cache_nodes := pre1 @ map mark_killed (drop j (cache_nodes ctx)),
                              remote_exec_thread_id := 0\<rparr>,
                ls_sent st1)
      \<and> (\<forall>i s. (i, s) \<in> set (ls_sent st1) \<longrightarrow> i < j)"
    if nk: "\<not> killed ctx" and conn: "exec_connect env = Connected h"
      and ps: "\<not> pre_scan (force ctx) (ignore_warnings ctx) (cache_nodes ctx)"
      and j: "j < length (cache_nodes ctx)"
      and pre: "exec_loop cfg env ?n 0 (take j (cache_nodes ctx)) ?st = Some (pre1, st1)"
      and seen: "killed (ls_ctx st1) \<or> kill_arrives (stmt_env env j)"
  proof -
    from j have ne: "cache_nodes ctx \<noteq> []" by auto
    from j have post: "drop j (cache_nodes ctx) \<noteq> []" by simp
    from j have len: "length (take j (cache_nodes ctx)) = j" by simp
    have unf: "execute_statements cfg env ctx
                 = (case exec_loop cfg env ?n 0 (cache_nodes ctx) ?st of
                      None \<Rightarrow> None
                    | Some (nodes1, st) \<Rightarrow>
                        Some (ls_has_error st,
                              (ls_ctx st)\<lparr>cache_nodes := nodes1, remote_exec_thread_id := 0\<rparr>,
                              ls_sent st))"
      using nk ne conn ps by (simp add: execute_statements_def connect_remote_def Let_def)
    have "exec_loop cfg env ?n (0 + length (take j (cache_nodes ctx)))
            (drop j (cache_nodes ctx)) st1
          = Some (map mark_killed (drop j (cache_nodes ctx)),
                  st1\<lparr>ls_ctx := (ls_ctx st1)\<lparr>killed := True\<rparr>\<rparr>)"
      unfolding len using seen by (simp only: add_0 exec_loop_kill_seen [OF post])
    with pre
    have "exec_loop cfg env ?n 0 (take j (cache_nodes ctx) @ drop j (cache_nodes ctx)) ?st
          = Some (pre1 @ map mark_killed (drop j (cache_nodes ctx)),
                  st1\<lparr>ls_ctx := (ls_ctx st1)\<lparr>killed := True\<rparr>\<rparr>)"
      by (simp only: exec_loop_append option.case prod.case)
    then have whole: "exec_loop cfg env ?n 0 (cache_nodes ctx) ?st
          = Some (pre1 @ map mark_killed (drop j (cache_nodes ctx)),
                  st1\<lparr>ls_ctx := (ls_ctx st1)\<lparr>killed := True\<rparr>\<rparr>)"
      by (simp only: append_take_drop_id)
    have res: "execute_statements cfg env ctx
        = Some (ls_has_error st1,
                (ls_ctx st1)\<lparr>killed := True,
                              cache_nodes := pre1 @ map mark_killed (drop j (cache_nodes ctx)),
                              remote_exec_thread_id := 0\<rparr>,
                ls_sent st1)"
      unfolding unf whole by simp
    have "i < j" if "(i, s) \<in> set (ls_sent st1)" for i s
      using exec_loop_sent [OF pre that] len by simp
    with res show ?thesis by blast
  qed
  have mark: "stage (mark_killed node) = STAGE_EXECUTED"
    "stage_status (mark_killed node) = ''Killed by user''"
    "mark_killed node = node\<lparr>stage := STAGE_EXECUTED, stage_status := ''Killed by user''\<rparr>"
    by (simp_all add: mark_killed_def)
  have returns: "opt_exec_max_threads_running cfg = 0 \<and> opt_exec_max_replication_delay cfg = 0
      \<longrightarrow> execute_statements cfg env ctx \<noteq> None"
    using execute_statements_returns [of cfg env ctx] by blast
  from before inloop engine mark returns show ?thesis by blast
qed

theorem killed_statements_not_sent_witness:
  "\<not> killed two_inserts
   \<and> exec_connect kill_before_second
       = Connected \<lparr>server_version = Some ''8.0.30'', thread_id = 5\<rparr>
   \<and> kill_arrives (stmt_env kill_before_second 1)
   \<and> execute_statements default_exec_config kill_before_second two_inserts
       = Some (False,
               two_inserts\<lparr>remote_exec_thread_id := 5, killed := True,
                  cache_nodes :=
                    [make_sequence 0 1
                       ((checked_node 1 ''INSERT INTO t VALUES (1)'' ERRLEVEL_OK)
                          \<lparr>affected_rows := 0, execute_time := ''0.001'',
                           stage := STAGE_EXECUTED, stage_status := ''Execute completed''\<rparr>),
                     mark_killed (checked_node 2 ''INSERT INTO t VALUES (2)'' ERRLEVEL_OK)],
                  remote_exec_thread_id := 0\<rparr>,
               [(0, ''INSERT INTO t VALUES (1)'')])"
proof -
  let ?h = "\<lparr>server_version = Some ''8.0.30'', thread_id = 5\<rparr>"
  let ?st = "\<lparr>ls_ctx = two_inserts\<lparr>remote_exec_thread_id := thread_id ?h\<rparr>,
               ls_has_error = False, ls_stop_exec = False, ls_sent = []\<rparr>"
  let ?n1 = "make_sequence 0 1
               ((checked_node 1 ''INSERT INTO t VALUES (1)'' ERRLEVEL_OK)
                  \<lparr>affected_rows := 0, execute_time := ''0.001'',
                   stage := STAGE_EXECUTED, stage_status := ''Execute completed''\<rparr>)"
  let ?st1 = "\<lparr>ls_ctx = two_inserts\<lparr>remote_exec_thread_id := 5\<rparr>, ls_has_error = False,
                ls_stop_exec = False, ls_sent = [(0, ''INSERT INTO t VALUES (1)'')]\<rparr>"
  have nk: "\<not> killed two_inserts" by (rule two_inserts_fields)
  have conn: "exec_connect kill_before_second = Connected ?h"
    by (simp add: kill_before_second_def quiet_env_def)
  have ps: "\<not> pre_scan (force two_inserts) (ignore_warnings two_inserts) (cache_nodes two_inserts)"
    using two_inserts_pre_scan by (simp only: two_inserts_fields simp_thms)
  have j: "(1::nat) < length (cache_nodes two_inserts)" by (simp add: two_inserts_fields)
  have pre: "exec_loop default_exec_config kill_before_second
               (if opt_exec_max_replication_delay default_exec_config > 0
                   \<and> slave_hosts two_inserts \<noteq> []
                then length (filter (slave_connects kill_before_second)
                               [0..<length (slave_hosts two_inserts)]) else 0)
               0 (take 1 (cache_nodes two_inserts)) ?st
             = Some ([?n1], ?st1)"
    by (simp add: two_inserts_fields first_insert_step)
  have seen: "killed (ls_ctx ?st1) \<or> kill_arrives (stmt_env kill_before_second 1)"
    by (simp add: kill_before_second_def quiet_env_def)
  have arrives: "kill_arrives (stmt_env kill_before_second 1)"
    by (simp add: kill_before_second_def quiet_env_def)
  from killed_statements_not_sent [where cfg = default_exec_config
      and env = kill_before_second and ctx = two_inserts and h = ?h and j = 1
      and ?pre1.0 = "[?n1]" and ?st1.0 = ?st1]
    nk conn ps j pre seen
  have "execute_statements default_exec_config kill_before_second two_inserts
        = Some (ls_has_error ?st1,
                (ls_ctx ?st1)\<lparr>killed := True,
                   cache_nodes := [?n1] @ map mark_killed (drop 1 (cache_nodes two_inserts)),
                   remote_exec_thread_id := 0\<rparr>,
                ls_sent ?st1)"
    by blast
  then have "execute_statements default_exec_config kill_before_second two_inserts
       = Some (False,
               two_inserts\<lparr>remote_exec_thread_id := 5, killed := True,
                  cache_nodes :=
                    [?n1, mark_killed (checked_node 2 ''INSERT INTO t VALUES (2)'' ERRLEVEL_OK)],
                  remote_exec_thread_id := 0\<rparr>,
               [(0, ''INSERT INTO t VALUES (1)'')])"
    by (simp add: two_inserts_fields)
  with nk conn arrives show ?thesis by (rule conjI [OF _ conjI [OF _ conjI]])
qed

section \<open>The batch schema tracks created tables\<close>

lemma dom_track_add_columns:
  "bkey \<in> dom bt \<Longrightarrow> dom (track_add_columns bkey flds bt) = dom bt"
proof (induction flds arbitrary: bt)
  case Nil
  show ?case by simp
next
  case (Cons f flds)
  show ?case
  proof (cases f)
    case None
    with Cons show ?thesis by simp
  next
    case (Some col)
    let ?bt = "bt(bkey \<mapsto> insert (str_tolower col) (case bt bkey of Some cols \<Rightarrow> cols | None \<Rightarrow> {}))"
    from Cons.prems have d: "dom ?bt = dom bt" by auto
    then have "bkey \<in> dom ?bt" using Cons.prems by simp
    then have "dom (track_add_columns bkey flds ?bt) = dom ?bt" by (rule Cons.IH)
    with d Some show ?thesis by simp
  qed
qed

lemma dom_track_drop_columns: "dom (track_drop_columns bkey drops bt) = dom bt"
proof (induction drops arbitrary: bt)
  case Nil
  show ?case by simp
next
  case (Cons dr drops)
  obtain ty name where dr: "dr = (ty, name)" by (cases dr)
  show ?case
    unfolding dr track_drop_columns.simps Cons.IH
    by (auto split: option.splits if_splits)
qed

lemma dom_track_alter_table: "dom (track_alter_table thd bt) = dom bt"
proof (cases "alter_target thd")
  case None
  then show ?thesis by (simp add: track_alter_table_def)
next
  case (Some target)
  obtain db t where target: "target = (db, t)" by (cases target)
  show ?thesis
  proof (cases "bt (batch_table_key db t)")
    case None
    with Some target show ?thesis by (simp add: track_alter_table_def Let_def)
  next
    case (Some cols)
    then have "batch_table_key db t \<in> dom bt" by auto
    then have "dom (track_add_columns (batch_table_key db t) (create_list (lex thd)) bt) = dom bt"
      by (rule dom_track_add_columns)
    with \<open>alter_target thd = Some target\<close> target show ?thesis
      by (simp add: track_alter_table_def Let_def dom_track_drop_columns)
  qed
qed

text \<open>The keys a statement adds to the batch schema: its own, when it is a CREATE TABLE.\<close>

lemma dom_audit_batch_tables:
  "dom (audit_batch_tables thd bt) =
     dom bt \<union> {key. lex_sql_command (lex thd) = SQLCOM_CREATE_TABLE
                     \<and> create_table_key thd = Some key}"
  by (auto simp: audit_batch_tables_def track_create_table_def dom_track_alter_table
      split: option.splits if_splits)

lemma dom_audit_batch:
  "dom (audit_batch thds bt) =
     dom bt \<union> {key. \<exists>thd \<in> set thds. lex_sql_command (lex thd) = SQLCOM_CREATE_TABLE
                     \<and> create_table_key thd = Some key}"
proof (induction thds arbitrary: bt)
  case Nil
  show ?case by simp
next
  case (Cons thd thds)
  show ?case
    unfolding audit_batch.simps Cons.IH dom_audit_batch_tables by auto
qed

text \<open>
  Claim C3, as stated: a DROP TABLE audited later in the batch erases the entry, and an
  entry stands for a CREATE TABLE that was audited successfully. After
  \<^verbatim>\<open>CREATE TABLE d.t (Id INT)\<close> and \<^verbatim>\<open>DROP TABLE d.t\<close> the entry for \<^verbatim>\<open>d.t\<close> is still
  there. And when the remote already has \<^verbatim>\<open>d.t\<close> (\<open>top\<close> is the remote on which every
  table exists), the audit of the CREATE TABLE reports an error and the entry is written
  all the same.
\<close>

theorem drop_table_keeps_batch_entry:
  "audit_batch
     [\<lparr> query = ''CREATE TABLE d.t (Id INT)'', thd_db = None,
        lex = \<lparr> lex_sql_command = SQLCOM_CREATE_TABLE, query_block_db = None,
                query_tables = Some \<lparr> tl_table_name = Some ''t'', tl_db = Some ''d'' \<rparr>,
                lex_name = None, alter_flags = {}, create_info = None,
                create_list = [Some ''Id''], drop_list = [] \<rparr> \<rparr>,
      \<lparr> query = ''DROP TABLE d.t'', thd_db = None,
        lex = \<lparr> lex_sql_command = SQLCOM_DROP_TABLE, query_block_db = None,
                query_tables = Some \<lparr> tl_table_name = Some ''t'', tl_db = Some ''d'' \<rparr>,
                lex_name = None, alter_flags = {}, create_info = None,
                create_list = [], drop_list = [] \<rparr> \<rparr>]
     Map.empty ''d.t'' = Some {''id''}
   \<and> errlevel (audit_create_table_exists (Some top)
        \<lparr> query = ''CREATE TABLE d.t (Id INT)'', thd_db = None,
          lex = \<lparr> lex_sql_command = SQLCOM_CREATE_TABLE, query_block_db = None,
                  query_tables = Some \<lparr> tl_table_name = Some ''t'', tl_db = Some ''d'' \<rparr>,
                  lex_name = None, alter_flags = {}, create_info = None,
                  create_list = [Some ''Id''], drop_list = [] \<rparr> \<rparr>
        Map.empty new_node) = ERRLEVEL_ERROR
   \<and> audit_batch_tables
        \<lparr> query = ''CREATE TABLE d.t (Id INT)'', thd_db = None,
          lex = \<lparr> lex_sql_command = SQLCOM_CREATE_TABLE, query_block_db = None,
                  query_tables = Some \<lparr> tl_table_name = Some ''t'', tl_db = Some ''d'' \<rparr>,
                  lex_name = None, alter_flags = {}, create_info = None,
                  create_list = [Some ''Id''], drop_list = [] \<rparr> \<rparr>
        Map.empty ''d.t'' = Some {''id''}"
  by (simp add: audit_batch_tables_def track_create_table_def create_table_key_def
      stmt_db_def batch_table_key_def str_tolower_def tolower_c_def List.map_filter_simps
      audit_create_table_exists_def append_error_def new_node_def Let_def
      ERRLEVEL_OK_def ERRLEVEL_ERROR_def)

text \<open>
  Claim C3, amended. After the audit of any sequence of statements from an empty batch
  schema, \<open>batch_tables\<close> has an entry for a key \<^verbatim>\<open>db.t\<close> if and only if a CREATE TABLE
  resolving to that key was audited earlier in the batch, whether or not its audit
  reported errors. Right after such a CREATE TABLE the entry holds the statement's column
  names in lower case. No statement removes an entry: ALTER TABLE changes only the
  column sets of tracked tables, and the audit of a DROP TABLE leaves the batch schema as
  it is.
\<close>

theorem batch_tables_track_creates:
  "dom (audit_batch thds Map.empty) =
     {key. \<exists>thd \<in> set thds. lex_sql_command (lex thd) = SQLCOM_CREATE_TABLE
                              \<and> create_table_key thd = Some key}
   \<and> (lex_sql_command (lex thd) = SQLCOM_CREATE_TABLE \<and> create_table_key thd = Some key
        \<longrightarrow> audit_batch_tables thd bt key
              = Some (set (map str_tolower (List.map_filter (\<lambda>f. f) (create_list (lex thd))))))
   \<and> dom bt \<subseteq> dom (audit_batch_tables thd bt)
   \<and> (lex_sql_command (lex thd) = SQLCOM_DROP_TABLE \<longrightarrow> audit_batch_tables thd bt = bt)"
proof -
  have a: "dom (audit_batch thds Map.empty) =
     {key. \<exists>thd \<in> set thds. lex_sql_command (lex thd) = SQLCOM_CREATE_TABLE
                              \<and> create_table_key thd = Some key}"
    by (simp add: dom_audit_batch)
  have b: "lex_sql_command (lex thd) = SQLCOM_CREATE_TABLE \<and> create_table_key thd = Some key
        \<longrightarrow> audit_batch_tables thd bt key
              = Some (set (map str_tolower (List.map_filter (\<lambda>f. f) (create_list (lex thd)))))"
    by (simp add: audit_batch_tables_def track_create_table_def)
  have c: "dom bt \<subseteq> dom (audit_batch_tables thd bt)"
    unfolding dom_audit_batch_tables by blast
  have d: "lex_sql_command (lex thd) = SQLCOM_DROP_TABLE \<longrightarrow> audit_batch_tables thd bt = bt"
    by (simp add: audit_batch_tables_def)
  from a b c d show ?thesis by blast
qed

theorem batch_tables_track_creates_witness:
  "dom (audit_batch
     [\<lparr> query = ''CREATE TABLE t (Id INT, Name TEXT)'', thd_db = Some ''shop'',
        lex = \<lparr> lex_sql_command = SQLCOM_CREATE_TABLE, query_block_db = None,
                query_tables = Some \<lparr> tl_table_name = Some ''t'', tl_db = None \<rparr>,
                lex_name = None, alter_flags = {}, create_info = None,
                create_list = [Some ''Id'', Some ''Name''], drop_list = [] \<rparr> \<rparr>,
      \<lparr> query = ''ALTER TABLE t DROP COLUMN name'', thd_db = Some ''shop'',
        lex = \<lparr> lex_sql_command = SQLCOM_ALTER_TABLE, query_block_db = None,
                query_tables = Some \<lparr> tl_table_name = Some ''t'', tl_db = None \<rparr>,
                lex_name = None, alter_flags = {ALTER_DROP_COLUMN}, create_info = None,
                create_list = [], drop_list = [(DROP_COLUMN, ''name'')] \<rparr> \<rparr>]
     Map.empty) = {''shop.t''}
   \<and> create_table_key
        \<lparr> query = ''CREATE TABLE t (Id INT, Name TEXT)'', thd_db = Some ''shop'',
          lex = \<lparr> lex_sql_command = SQLCOM_CREATE_TABLE, query_block_db = None,
                  query_tables = Some \<lparr> tl_table_name = Some ''t'', tl_db = None \<rparr>,
                  lex_name = None, alter_flags = {}, create_info = None,
                  create_list = [Some ''Id'', Some ''Name''], drop_list = [] \<rparr> \<rparr>
       = Some ''shop.t''
   \<and> audit_batch_tables
        \<lparr> query = ''CREATE TABLE t (Id INT, Name TEXT)'', thd_db = Some ''shop'',
          lex = \<lparr> lex_sql_command = SQLCOM_CREATE_TABLE, query_block_db = None,
                  query_tables = Some \<lparr> tl_table_name = Some ''t'', tl_db = None \<rparr>,
                  lex_name = None, alter_flags = {}, create_info = None,
                  create_list = [Some ''Id'', Some ''Name''], drop_list = [] \<rparr> \<rparr>
        Map.empty ''shop.t'' = Some {''id'', ''name''}"
proof -
  let ?c = "\<lparr> query = ''CREATE TABLE t (Id INT, Name TEXT)'', thd_db = Some ''shop'',
        lex = \<lparr> lex_sql_command = SQLCOM_CREATE_TABLE, query_block_db = None,
                query_tables = Some \<lparr> tl_table_name = Some ''t'', tl_db = None \<rparr>,
                lex_name = None, alter_flags = {}, create_info = None,
                create_list = [Some ''Id'', Some ''Name''], drop_list = [] \<rparr> \<rparr>"
  let ?a = "\<lparr> query = ''ALTER TABLE t DROP COLUMN name'', thd_db = Some ''shop'',
        lex = \<lparr> lex_sql_command = SQLCOM_ALTER_TABLE, query_block_db = None,
                query_tables = Some \<lparr> tl_table_name = Some ''t'', tl_db = None \<rparr>,
                lex_name = None, alter_flags = {ALTER_DROP_COLUMN}, create_info = None,
                create_list = [], drop_list = [(DROP_COLUMN, ''name'')] \<rparr> \<rparr>"
  have k: "create_table_key ?c = Some ''shop.t''"
    by (simp add: create_table_key_def stmt_db_def batch_table_key_def)
  note inst = batch_tables_track_creates [of "[?c, ?a]" ?c "''shop.t''" Map.empty]
  from inst
  have "dom (audit_batch [?c, ?a] Map.empty) =
     {key. \<exists>thd \<in> set [?c, ?a]. lex_sql_command (lex thd) = SQLCOM_CREATE_TABLE
                              \<and> create_table_key thd = Some key}"
    by blast
  also have "\<dots> = {''shop.t''}"
    using k by auto
  finally have d: "dom (audit_batch [?c, ?a] Map.empty) = {''shop.t''}" .
  have c: "lex_sql_command (lex ?c) = SQLCOM_CREATE_TABLE" by simp
  from inst c k
  have "audit_batch_tables ?c Map.empty ''shop.t''
          = Some (set (map str_tolower (List.map_filter (\<lambda>f. f) (create_list (lex ?c)))))"
    by blast
  also have "\<dots> = Some {''id'', ''name''}"
    by (simp add: List.map_filter_simps str_tolower_def tolower_c_def)
  finally have e: "audit_batch_tables ?c Map.empty ''shop.t'' = Some {''id'', ''name''}" .
  from d k e show ?thesis by (rule conjI [OF _ conjI])
qed

section \<open>The predicted algorithm is the worst operation's\<close>

lemma raise_options: "(if e then raise 2 w else raise 0 w) = raise (if e then 2 else 0) w"
  by simp

lemma predict_worst_foldl:
  "predict_worst flags ci ctx = foldl raise_step 0 (alter_steps flags ci ctx)"
  unfolding predict_worst_def engine_change_def alter_steps_def
  by (simp only: Let_def foldl.simps raise_step_def fst_conv snd_conv raise_options)






text \<open>The bits that are not tested do not change the prediction.\<close>

lemma alter_steps_untested:
  "alter_steps (flags - untested_partition_flags) ci ctx = alter_steps flags ci ctx"
proof -
  have "(flags - untested_partition_flags) \<inter> {ALTER_ADD_PARTITION, ALTER_DROP_PARTITION,
            ALTER_COALESCE_PARTITION, ALTER_REORGANIZE_PARTITION, ALTER_EXCHANGE_PARTITION,
            ALTER_TRUNCATE_PARTITION, ALTER_REMOVE_PARTITIONING}
        = flags \<inter> {ALTER_ADD_PARTITION, ALTER_DROP_PARTITION,
            ALTER_COALESCE_PARTITION, ALTER_REORGANIZE_PARTITION, ALTER_EXCHANGE_PARTITION,
            ALTER_TRUNCATE_PARTITION, ALTER_REMOVE_PARTITIONING}"
    by (auto simp: untested_partition_flags_def)
  moreover have "(flags - untested_partition_flags)
          \<inter> {ALTER_DISCARD_TABLESPACE, ALTER_IMPORT_TABLESPACE}
        = flags \<inter> {ALTER_DISCARD_TABLESPACE, ALTER_IMPORT_TABLESPACE}"
    by (auto simp: untested_partition_flags_def)
  ultimately show ?thesis
    unfolding alter_steps_def by (simp add: untested_partition_flags_def)
qed

lemma predict_untested:
  "predict_alter_algorithm (flags - untested_partition_flags) ci ctx
     = predict_alter_algorithm flags ci ctx"
  by (simp add: predict_alter_algorithm_def predict_worst_foldl alter_steps_untested)







section \<open>Diagnostics are monotone\<close>

lemma report_off: "report 0 text node = node"
  by (simp add: report_def)

lemma report_errmsg:
  "0 < level \<Longrightarrow>
   errmsg (report level text node) = append_line (errmsg node) (take 1023 text)"
  by (simp add: report_def Let_def vsnprintf_buf_def)

lemma report_errlevel:
  "0 < level \<Longrightarrow>
   errlevel (report level text node) =
     max (errlevel node) (if level \<ge> 2 then ERRLEVEL_ERROR else ERRLEVEL_WARNING)"
  by (simp add: report_def Let_def max_def)

lemma report_errlevel_mono: "errlevel node \<le> errlevel (report level text node)"
  by (simp add: report_def Let_def)

lemma report_all_errlevel_mono: "errlevel node \<le> errlevel (report_all rs node)"
proof (induction rs arbitrary: node)
  case Nil
  show ?case by simp
next
  case (Cons r rs)
  obtain level s where r: "r = (level, s)" by (cases r)
  have "errlevel node \<le> errlevel (report level s node)"
    by (rule report_errlevel_mono)
  also have "\<dots> \<le> errlevel (report_all rs (report level s node))"
    by (rule Cons.IH)
  finally show ?case by (simp add: r)
qed

text \<open>
  Claim C5. A report whose severity knob is off (0) leaves the statement record as it was,
  message and errlevel included. A report with severity warning (1) or error (2 and above)
  appends one line to the message (after a newline when the message was not empty; the
  line is the formatted text cut to the 1023 bytes of the buffer) and sets errlevel to the
  larger of its old value and that severity. So after any sequence of reports errlevel is
  at least what it was before.
\<close>

theorem report_monotone:
  "report 0 text node = node
   \<and> (0 < level \<longrightarrow>
        errmsg (report level text node) = append_line (errmsg node) (take 1023 text)
        \<and> errlevel (report level text node) =
            max (errlevel node) (if level \<ge> 2 then ERRLEVEL_ERROR else ERRLEVEL_WARNING)
        \<and> (if level \<ge> 2 then ERRLEVEL_ERROR else ERRLEVEL_WARNING)
            \<le> errlevel (report level text node))
   \<and> errlevel node \<le> errlevel (report level text node)
   \<and> errlevel node \<le> errlevel (report_all rs node)"
  using report_off report_errmsg report_errlevel report_errlevel_mono
    report_all_errlevel_mono
  by (simp add: max_def)

theorem report_monotone_witness:
  "report 0 ''x'' new_node = new_node
   \<and> errmsg (report 1 ''Table must have a comment.'' new_node) = ''Table must have a comment.''
   \<and> errlevel (report 1 ''Table must have a comment.'' new_node) = 1
   \<and> errlevel (report_all [(2, ''a''), (0, ''b''), (1, ''c'')] new_node) = 2
   \<and> errmsg (report_all [(2, ''a''), (0, ''b''), (1, ''c'')] new_node) = [CHR ''a'', CHR 0x0A, CHR ''c'']"
  using report_monotone [of "''Table must have a comment.''" new_node 1 "[]"]
  by (simp add: report_def new_node_def append_line_def vsnprintf_buf_def Let_def
      ERRLEVEL_OK_def ERRLEVEL_WARNING_def ERRLEVEL_ERROR_def STAGE_NONE_def max_def)

section \<open>The split grouper\<close>







section \<open>The marker parser on a batch opener\<close>

lemmas parse_eval =
  cast_uint_def strtoul_def isspace_c_def isdigit_c_def digit_val_def ULONG_MAX_def Let_def
  strncasecmp_eq_def strncmp_eq_def tolower_c_def is_blank_def parse_option_def
  next_token_def handle_token_def tokenize.simps

lemma connection_defaults_port:
  "explicit_port (connection_defaults cfg c) = explicit_port c"
  "port (connection_defaults cfg c) = port c"
  by (simp_all add: connection_defaults_def Let_def split: option.split)

lemma connection_defaults_none:
  "opt_inception_user cfg = None \<Longrightarrow> opt_inception_password cfg = None \<Longrightarrow>
   password c = [] \<Longrightarrow> connection_defaults cfg c = c"
  by (simp add: connection_defaults_def Let_def)

lemma parse_host_port_42:
  "parse_inception_start cfg ''/*--host=h;--port=42;inception_magic_start;*/ SELECT 1'' ctx0
   = (False, (connection_defaults cfg
                ((reset ctx0)\<lparr>host := ''h'', explicit_host := True, port := 42,
                               explicit_port := True\<rparr>))\<lparr>active := True\<rparr>)"
  by (simp add: parse_inception_start_def parse_eval connection_defaults_port)

text \<open>
  Claim C7, as stated: the marker parser recognises
  \<^verbatim>\<open>/*--host=h;--port=42;magic_start;*/ SELECT 1\<close> as a batch opener. It does not: the
  sentinel the recogniser looks for in the first comment is \<^verbatim>\<open>inception_magic_start\<close>,
  so on this input \<^verbatim>\<open>is_inception_start\<close> is false and no context is set up.
\<close>

theorem bare_magic_start_not_recognised:
  "is_inception_start ''/*--host=h;--port=42;magic_start;*/ SELECT 1'' = False"
  by (simp add: is_inception_start_def first_comment_len_def parse_eval)

text \<open>
  Claim C7, amended: with the sentinel written in full,
  \<^verbatim>\<open>/*--host=h;--port=42;inception_magic_start;*/ SELECT 1\<close> is recognised as a batch
  opener; parsing succeeds from any earlier context and under any settings, and the
  context it leaves is the reset context with host \<open>h\<close>, port 42, their two
  explicit-flags and \<open>active\<close> set, and nothing else changed but the user and password,
  which come from the global defaults; with no global defaults they stay empty, so exactly
  host and port are set. The text left for the statement is \<^verbatim>\<open>SELECT 1\<close>.
\<close>

theorem marker_parser_example:
  "is_inception_start ''/*--host=h;--port=42;inception_magic_start;*/ SELECT 1''
   \<and> fst (parse_inception_start cfg
            ''/*--host=h;--port=42;inception_magic_start;*/ SELECT 1'' ctx0) = False
   \<and> (snd (parse_inception_start cfg
            ''/*--host=h;--port=42;inception_magic_start;*/ SELECT 1'' ctx0))
         \<lparr>user := [], password := []\<rparr>
       = (reset ctx0)\<lparr>host := ''h'', port := 42, explicit_host := True,
                       explicit_port := True, active := True\<rparr>
   \<and> (opt_inception_user cfg = None \<and> opt_inception_password cfg = None \<longrightarrow>
        snd (parse_inception_start cfg
            ''/*--host=h;--port=42;inception_magic_start;*/ SELECT 1'' ctx0)
        = (reset ctx0)\<lparr>host := ''h'', port := 42, explicit_host := True,
                        explicit_port := True, active := True\<rparr>)
   \<and> strip_inception_comment ''/*--host=h;--port=42;inception_magic_start;*/ SELECT 1''
       = ''SELECT 1''"
proof -
  let ?q = "''/*--host=h;--port=42;inception_magic_start;*/ SELECT 1''"
  let ?c = "(reset ctx0)\<lparr>host := ''h'', explicit_host := True, port := 42,
                          explicit_port := True\<rparr>"
  have rec: "is_inception_start ?q"
    by (simp add: is_inception_start_def first_comment_len_def parse_eval)
  have strip: "strip_inception_comment ?q = ''SELECT 1''"
    by (simp add: strip_inception_comment_def parse_eval)
  have parsed: "parse_inception_start cfg ?q ctx0
        = (False, (connection_defaults cfg ?c)\<lparr>active := True\<rparr>)"
    by (rule parse_host_port_42)
  have cred: "(connection_defaults cfg ?c)\<lparr>active := True, user := [], password := []\<rparr>
                = ?c\<lparr>active := True, user := [], password := []\<rparr>"
    by (simp add: connection_defaults_def Let_def split: option.split)
  have none: "opt_inception_user cfg = None \<and> opt_inception_password cfg = None \<longrightarrow>
              connection_defaults cfg ?c = ?c"
    by (simp add: connection_defaults_none reset_def)
  have untouched: "?c\<lparr>active := True, user := [], password := []\<rparr>
        = (reset ctx0)\<lparr>host := ''h'', port := 42, explicit_host := True,
                         explicit_port := True, active := True\<rparr>"
    by (simp add: reset_def)
  show ?thesis
    using rec strip cred none untouched
    by (simp add: parsed)
qed

theorem marker_parser_example_witness:
  "opt_inception_user \<lparr> opt_inception_user = None, opt_inception_password = None,
        opt_inception_password_encrypt_key = None, base64_decode = (\<lambda>_. None),
        my_aes_decrypt = (\<lambda>_ _. None) \<rparr> = None
   \<and> host (snd (parse_inception_start
         \<lparr> opt_inception_user = None, opt_inception_password = None,
           opt_inception_password_encrypt_key = None, base64_decode = (\<lambda>_. None),
           my_aes_decrypt = (\<lambda>_ _. None) \<rparr>
         ''/*--host=h;--port=42;inception_magic_start;*/ SELECT 1'' new_context)) = ''h''
   \<and> port (snd (parse_inception_start
         \<lparr> opt_inception_user = None, opt_inception_password = None,
           opt_inception_password_encrypt_key = None, base64_decode = (\<lambda>_. None),
           my_aes_decrypt = (\<lambda>_ _. None) \<rparr>
         ''/*--host=h;--port=42;inception_magic_start;*/ SELECT 1'' new_context)) = 42
   \<and> user (snd (parse_inception_start
         \<lparr> opt_inception_user = None, opt_inception_password = None,
           opt_inception_password_encrypt_key = None, base64_decode = (\<lambda>_. None),
           my_aes_decrypt = (\<lambda>_ _. None) \<rparr>
         ''/*--host=h;--port=42;inception_magic_start;*/ SELECT 1'' new_context)) = []"
  using marker_parser_example
    [of "\<lparr> opt_inception_user = None, opt_inception_password = None,
           opt_inception_password_encrypt_key = None, base64_decode = (\<lambda>_. None),
           my_aes_decrypt = (\<lambda>_ _. None) \<rparr>" new_context]
  by (simp add: reset_def)

section \<open>Profile detection\<close>
















section \<open>A batch opener on an active session\<close>

text \<open>What the marker parser and the profile detection leave alone: the batch's nodes.\<close>

lemma parse_option_frame:
  "cache_nodes (parse_option key valp n c) = cache_nodes c"
  "split_nodes (parse_option key valp n c) = split_nodes c"
  "tree_nodes (parse_option key valp n c) = tree_nodes c"
  by (simp_all add: parse_option_def Let_def)

lemma handle_token_frame:
  "cache_nodes (handle_token token n c) = cache_nodes c"
  "split_nodes (handle_token token n c) = split_nodes c"
  "tree_nodes (handle_token token n c) = tree_nodes c"
  by (simp_all add: handle_token_def parse_option_frame split: option.splits)

lemma tokenize_frame:
  "cache_nodes (tokenize buf n c) = cache_nodes c
   \<and> split_nodes (tokenize buf n c) = split_nodes c
   \<and> tree_nodes (tokenize buf n c) = tree_nodes c"
proof (induction buf n c rule: tokenize.induct)
  case (1 buf n ctx)
  show ?case
  proof (cases "next_token buf n")
    case None
    then show ?thesis by (subst (1 2 3) tokenize.simps) simp
  next
    case (Some t)
    obtain rest rest_n token token_len where t: "t = (rest, rest_n, token, token_len)"
      by (cases t) auto
    from 1 [OF Some [unfolded t] refl refl refl]
    have "cache_nodes (tokenize rest rest_n (handle_token token token_len ctx)) = cache_nodes ctx
        \<and> split_nodes (tokenize rest rest_n (handle_token token token_len ctx)) = split_nodes ctx
        \<and> tree_nodes (tokenize rest rest_n (handle_token token token_len ctx)) = tree_nodes ctx"
      by (simp add: handle_token_frame)
    with Some t show ?thesis by (subst (1 2 3) tokenize.simps) simp
  qed
qed

lemma connection_defaults_frame:
  "cache_nodes (connection_defaults cfg c) = cache_nodes c"
  "split_nodes (connection_defaults cfg c) = split_nodes c"
  "tree_nodes (connection_defaults cfg c) = tree_nodes c"
  by (simp_all add: connection_defaults_def Let_def split: option.splits)

lemma maybe_detect_remote_db_profile_frame:
  "active (maybe_detect_remote_db_profile attempt c) = active c"
  "cache_nodes (maybe_detect_remote_db_profile attempt c) = cache_nodes c"
  "split_nodes (maybe_detect_remote_db_profile attempt c) = split_nodes c"
  "tree_nodes (maybe_detect_remote_db_profile attempt c) = tree_nodes c"
  by (auto simp: maybe_detect_remote_db_profile_def get_remote_conn_def Let_def
      split: option.splits connect_result.splits prod.splits)

text \<open>The parser starts from the reset context, so it does not see the \<open>active\<close> flag.\<close>

lemma parse_inception_start_active:
  "parse_inception_start cfg q (c\<lparr>active := a\<rparr>) = parse_inception_start cfg q c"
  by (simp add: parse_inception_start_def reset_def)

lemma parse_inception_start_opens:
  assumes "parse_inception_start cfg q c = (False, c1)"
  shows "active c1 \<and> cache_nodes c1 = [] \<and> split_nodes c1 = [] \<and> tree_nodes c1 = []"
proof -
  define body where "body = drop 2 (skip_whitespace q)"
  define n where "n = (case find_ci body ''*/'' of Some i \<Rightarrow> i | None \<Rightarrow> length body)"
  from assms
  have "c1 = (connection_defaults cfg (tokenize body n (reset c)))\<lparr>active := True\<rparr>"
    unfolding parse_inception_start_def Let_def body_def [symmetric] n_def [symmetric]
    by (simp split: if_splits)
  then show ?thesis
    by (simp add: connection_defaults_frame tokenize_frame reset_def)
qed

text \<open>A batch opener starts with a comment, so it is none of the \<^verbatim>\<open>inception\<close> commands.\<close>

lemma command_text_prefix: "prefix (command_text q) (skip_whitespace q)"
proof -
  have "suffix (dropWhile (\<lambda>c. is_blank c \<or> c = CHR '';'') (rev (skip_whitespace q)))
          (rev (skip_whitespace q))"
    by (rule suffix_dropWhile)
  then show ?thesis by (simp add: command_text_def suffix_to_prefix)
qed

lemma is_inception_start_slash:
  assumes "is_inception_start q"
  shows "\<exists>cs. skip_whitespace q = CHR ''/'' # cs"
proof -
  from assms have "first_comment_len (skip_whitespace q) \<noteq> 0"
    by (auto simp: is_inception_start_def Let_def split: if_splits)
  then have "length (skip_whitespace q) \<ge> 2" "skip_whitespace q ! 0 = CHR ''/''"
    by (auto simp: first_comment_len_def split: if_splits)
  then show ?thesis by (cases "skip_whitespace q") auto
qed

lemma start_not_command:
  assumes "is_inception_start q"
  shows "\<not> handle_inception_command q"
proof -
  from is_inception_start_slash [OF assms] obtain cs
    where "skip_whitespace q = CHR ''/'' # cs" by blast
  with command_text_prefix [of q]
  have "command_text q = [] \<or> (\<exists>ts. command_text q = CHR ''/'' # ts)"
    by (cases "command_text q") auto
  then show ?thesis
    by (auto simp: handle_inception_command_def Let_def strncasecmp_eq_def tolower_c_def)
qed

text \<open>What the hook does with a batch opener that is not also a commit.\<close>

lemma before_parse_start:
  assumes "is_inception_start q" and "\<not> is_inception_commit q"
  shows "before_parse senv q ctx
         = (case parse_inception_start (parse_cfg senv) q ctx of
              (True, c1) \<Rightarrow>
                Some (Handled_start_error ''Failed to parse inception_magic_start comment'', c1)
            | (False, c1) \<Rightarrow>
                Some (Continue_parsing,
                      (maybe_detect_remote_db_profile (audit_connect senv) c1)
                        \<lparr>session_start_time := steady_now senv\<rparr>))"
  using assms start_not_command [OF assms(1)]
  by (simp add: before_parse_def setup_inception_session_def Let_def
      split: prod.splits bool.splits)

lemma opener_is_start:
  "is_inception_start ''/*--host=h;--port=42;inception_magic_start;*/ SELECT 1''"
  by (simp add: is_inception_start_def first_comment_len_def parse_eval)

lemma opener_is_no_commit:
  "\<not> is_inception_commit ''/*--host=h;--port=42;inception_magic_start;*/ SELECT 1''"
  by (simp add: is_inception_commit_def first_comment_len_def parse_eval)

text \<open>
  Claim C9, as stated: a batch opener that arrives while the session is active is treated
  as an error and opens no second batch. The session \<open>two_inserts\<close> is active and holds two
  audited statements; on the opener
  \<^verbatim>\<open>/*--host=h;--port=42;inception_magic_start;*/ SELECT 1\<close> the hook reports no error
  and hands the query on to the parser, with a context that is active and whose batch
  is empty: the two statements are gone and a new batch is open.
\<close>

theorem start_on_active_session_accepted:
  "active two_inserts
   \<and> length (cache_nodes two_inserts) = 2
   \<and> map_option fst
       (before_parse quiet_server
          ''/*--host=h;--port=42;inception_magic_start;*/ SELECT 1'' two_inserts)
     = Some Continue_parsing
   \<and> map_option (active \<circ> snd)
       (before_parse quiet_server
          ''/*--host=h;--port=42;inception_magic_start;*/ SELECT 1'' two_inserts)
     = Some True
   \<and> map_option (cache_nodes \<circ> snd)
       (before_parse quiet_server
          ''/*--host=h;--port=42;inception_magic_start;*/ SELECT 1'' two_inserts)
     = Some []
   \<and> map_option (port \<circ> snd)
       (before_parse quiet_server
          ''/*--host=h;--port=42;inception_magic_start;*/ SELECT 1'' two_inserts)
     = Some 42"
proof -
  have p: "parse_inception_start (parse_cfg quiet_server)
             ''/*--host=h;--port=42;inception_magic_start;*/ SELECT 1'' two_inserts
           = (False, (reset two_inserts)\<lparr>host := ''h'', explicit_host := True, port := 42,
                                         explicit_port := True, active := True\<rparr>)"
    unfolding parse_host_port_42
    by (simp add: connection_defaults_none quiet_server_def no_defaults_def reset_def)
  have d: "port (maybe_detect_remote_db_profile attempt c) = port c" for attempt c
    by (auto simp: maybe_detect_remote_db_profile_def get_remote_conn_def Let_def
        split: option.splits connect_result.splits prod.splits)
  have t: "active two_inserts" "length (cache_nodes two_inserts) = 2"
    by (simp_all add: two_inserts_def)
  show ?thesis
    unfolding before_parse_start [OF opener_is_start opener_is_no_commit] p
    by (simp add: t d maybe_detect_remote_db_profile_frame reset_def)
qed

text \<open>
  Claim C9, amended. The hook does not look at the \<open>active\<close> flag when a batch opener
  arrives (one that is not also a commit marker): it does on an active session exactly what
  it does on an idle one. The opener is an error only if its comment does not parse;
  otherwise the session is reset and a new batch is opened in place of the one held so
  far: the hook hands the query on to the parser with a context that is active and holds
  no cached, split or tree node.
\<close>

theorem start_ignores_active:
  assumes "is_inception_start q" and "\<not> is_inception_commit q"
  shows "before_parse senv q ctx = before_parse senv q (ctx\<lparr>active := False\<rparr>)
    \<and> (\<exists>res ctx1. before_parse senv q ctx = Some (res, ctx1)
          \<and> (if fst (parse_inception_start (parse_cfg senv) q ctx)
             then res = Handled_start_error ''Failed to parse inception_magic_start comment''
             else res = Continue_parsing \<and> active ctx1 \<and> cache_nodes ctx1 = []
                  \<and> split_nodes ctx1 = [] \<and> tree_nodes ctx1 = []))"
proof -
  have same: "before_parse senv q ctx = before_parse senv q (ctx\<lparr>active := False\<rparr>)"
    unfolding before_parse_start [OF assms] parse_inception_start_active ..
  obtain failed c1 where p: "parse_inception_start (parse_cfg senv) q ctx = (failed, c1)"
    by (cases "parse_inception_start (parse_cfg senv) q ctx") auto
  have "\<exists>res ctx1. before_parse senv q ctx = Some (res, ctx1)
          \<and> (if failed
             then res = Handled_start_error ''Failed to parse inception_magic_start comment''
             else res = Continue_parsing \<and> active ctx1 \<and> cache_nodes ctx1 = []
                  \<and> split_nodes ctx1 = [] \<and> tree_nodes ctx1 = [])"
  proof (cases failed)
    case True
    with p show ?thesis unfolding before_parse_start [OF assms] by simp
  next
    case False
    with p parse_inception_start_opens [of "parse_cfg senv" q ctx c1]
    show ?thesis
      unfolding before_parse_start [OF assms]
      by (simp add: maybe_detect_remote_db_profile_frame)
  qed
  with same p show ?thesis by simp
qed

theorem start_ignores_active_witness:
  "is_inception_start ''/*--host=h;--port=42;inception_magic_start;*/ SELECT 1''
   \<and> \<not> is_inception_commit ''/*--host=h;--port=42;inception_magic_start;*/ SELECT 1''
   \<and> before_parse quiet_server
        ''/*--host=h;--port=42;inception_magic_start;*/ SELECT 1'' two_inserts
     = before_parse quiet_server
        ''/*--host=h;--port=42;inception_magic_start;*/ SELECT 1''
        (two_inserts\<lparr>active := False\<rparr>)"
  using start_ignores_active [OF opener_is_start opener_is_no_commit,
      where senv = quiet_server and ctx = two_inserts]
    opener_is_start opener_is_no_commit
  by blast

section \<open>The port range check\<close>

text \<open>
  Claim C10 says that a \<^verbatim>\<open>--port\<close> value of 0 or above 65535 makes the parse fail. The
  value is converted by \<^verbatim>\<open>static_cast<uint>(strtoul(val, nullptr, 10))\<close> before the
  range check, so a value of \<open>2^32\<close> or more is reduced modulo \<open>2^32\<close> first:
  \<^verbatim>\<open>--port=4294967338\<close> (that is \<open>2^32 + 42\<close>) is taken as port 42, the parse reports
  success and the context is active.
\<close>

theorem port_wraps_before_range_check:
  "is_inception_start ''/*--host=h;--port=4294967338;inception_magic_start;*/ SELECT 1''
   \<and> fst (parse_inception_start cfg
            ''/*--host=h;--port=4294967338;inception_magic_start;*/ SELECT 1'' ctx0) = False
   \<and> active (snd (parse_inception_start cfg
            ''/*--host=h;--port=4294967338;inception_magic_start;*/ SELECT 1'' ctx0))
   \<and> port (snd (parse_inception_start cfg
            ''/*--host=h;--port=4294967338;inception_magic_start;*/ SELECT 1'' ctx0)) = 42"
proof -
  let ?q = "''/*--host=h;--port=4294967338;inception_magic_start;*/ SELECT 1''"
  have rec: "is_inception_start ?q"
    by (simp add: is_inception_start_def first_comment_len_def parse_eval)
  have "parse_inception_start cfg ?q ctx0
        = (False, (connection_defaults cfg
                     ((reset ctx0)\<lparr>host := ''h'', explicit_host := True, port := 42,
                                    explicit_port := True\<rparr>))\<lparr>active := True\<rparr>)"
    by (simp add: parse_inception_start_def parse_eval connection_defaults_port)
  with rec show ?thesis
    by (simp add: connection_defaults_port)
qed


theorem port_wraps_before_range_check_witness:
  "fst (parse_inception_start no_defaults
          ''/*--host=h;--port=4294967338;inception_magic_start;*/ SELECT 1'' new_context)
     = False
   \<and> port (snd (parse_inception_start no_defaults
          ''/*--host=h;--port=4294967338;inception_magic_start;*/ SELECT 1'' new_context))
     = 42"
  using port_wraps_before_range_check [of no_defaults new_context] by blast

end
